theory Spec2Isabelle
  imports
    Complex_Main
    "HOL-Library.AList"
    "HOL-Library.Char_ord"
    "HOL-Library.List_Lexorder"
    "HOL-Library.Multiset"
    "HOL-Library.Sublist"
begin

section \<open>Data model of the benchmark comparison report\<close>

text \<open>
  The script \<^verbatim>\<open>hack/visualize-benchmarks.py\<close> reads a JSON comparison report and
  draws four charts from it. JSON numbers are modelled as exact rationals (Python floats
  without rounding, NaN or infinities); strings are \<^typ>\<open>string\<close>, compared
  lexicographically by character code as Python compares \<^verbatim>\<open>str\<close>.
  The report is modelled with the fields the script reads, already of the types the
  script uses them at.
\<close>

record entry =
  name :: string
  category :: string
  old_ns_per_op :: rat
  new_ns_per_op :: rat
  ns_per_op_change_pct :: rat
  old_bytes_per_op :: rat
  new_bytes_per_op :: rat
  old_allocs_per_op :: rat
  new_allocs_per_op :: rat

record summary =
  new_wins :: int
  old_wins :: int
  ties :: int
  avg_ns_per_op_change_pct :: rat

record report =
  old_label :: string
  new_label :: string
  entries :: "entry list"
  summary :: summary

datatype error =
    FileNotFoundError
  | FileExistsError
  | JSONDecodeError
  | KeyError string
  | ZeroDivisionError

section \<open>Python built-ins used by the script\<close>

text \<open>
  \<^verbatim>\<open>s.replace(old, new)\<close>: every non-overlapping occurrence of \<open>old\<close>, found scanning
  from the left, is replaced by \<open>new\<close>; with an empty \<open>old\<close>, \<open>new\<close> is inserted
  before every character and at the end.
\<close>

function str_replace :: "string \<Rightarrow> string \<Rightarrow> string \<Rightarrow> string" where
  "str_replace old new s =
     (if old = [] then new @ concat (map (\<lambda>c. c # new) s)
      else if s = [] then []
      else if prefix old s then new @ str_replace old new (drop (length old) s)
      else hd s # str_replace old new (tl s))"
  by pat_completeness auto
termination
  by (relation "measure (\<lambda>(old, new, s). length s)") auto

declare str_replace.simps [simp del]

text \<open>\<^verbatim>\<open>str(n)\<close> for a non-negative integer, and for any integer.\<close>

definition digit_char :: "nat \<Rightarrow> char" where
  "digit_char d = ''0123456789'' ! d"

function str_nat :: "nat \<Rightarrow> string" where
  "str_nat n = (if n < 10 then [digit_char n] else str_nat (n div 10) @ [digit_char (n mod 10)])"
  by pat_completeness auto
termination
  by (relation "measure id") auto

declare str_nat.simps [simp del]

definition str_int :: "int \<Rightarrow> string" where
  "str_int i = (if i < 0 then ''-'' @ str_nat (nat (- i)) else str_nat (nat i))"

text \<open>\<^verbatim>\<open>sum(xs) / len(xs)\<close>: the division raises on an empty list.\<close>

definition mean :: "rat list \<Rightarrow> error + rat" where
  "mean xs = (if length xs = 0 then Inl ZeroDivisionError
              else Inr (sum_list xs / of_nat (length xs)))"

text \<open>\<^verbatim>\<open>d[k]\<close> on a dictionary kept as an association list in insertion order.\<close>

definition dict_get :: "(string \<times> 'v) list \<Rightarrow> string \<Rightarrow> error + 'v" where
  "dict_get d k = (case map_of d k of None \<Rightarrow> Inl (KeyError k) | Some v \<Rightarrow> Inr v)"

text \<open>
  \<^verbatim>\<open>os.path.dirname\<close> and \<^verbatim>\<open>os.path.join\<close> of \<^verbatim>\<open>posixpath\<close>: the directory part
  is everything up to the last slash, with trailing slashes removed unless it consists
  of slashes only.
\<close>

definition rstrip_slash :: "string \<Rightarrow> string" where
  "rstrip_slash s = rev (dropWhile (\<lambda>c. c = CHR ''/'') (rev s))"

definition dirname :: "string \<Rightarrow> string" where
  "dirname p =
     (let head = rev (dropWhile (\<lambda>c. c \<noteq> CHR ''/'') (rev p))
      in if head \<noteq> [] \<and> head \<noteq> replicate (length head) CHR ''/'' then rstrip_slash head
         else head)"

definition path_join :: "string \<Rightarrow> string \<Rightarrow> string" where
  "path_join a b =
     (if prefix ''/'' b then b
      else if a = [] \<or> suffix ''/'' a then a @ b
      else a @ ''/'' @ b)"

section \<open>The drawing surface\<close>

text \<open>
  The plotting library is outside the script. A figure is modelled by what the script
  asks it to draw: its size, the calls made on each of its axes in order, and its
  figure-level title. The arguments are those of the calls, in the order
  positions, values, bar thickness, legend label, colour, alpha.
\<close>

datatype cmd =
    Bar "rat list" "rat list" rat string string rat
  | Barh "rat list" "rat list" rat string string rat
  | BarhCat "string list" "rat list" "string list" rat
  | Axvline rat string rat
  | Set_xlabel string
  | Set_ylabel string
  | Set_title string
  | Set_xticks "nat list"
  | Set_xticklabels "string list" rat string rat
  | Set_yticks "nat list"
  | Set_yticklabels "string list" rat
  | Legend "rat option"
  | Grid string rat
  | Set_yscale string
  | Text rat nat string string rat bool

record figure =
  figsize :: "rat \<times> rat"
  axes :: "cmd list list"
  suptitle :: "(string \<times> rat) option"

text \<open>The bars of the categorical horizontal bar charts: label, value and colour of each.\<close>

fun cmd_bars :: "cmd \<Rightarrow> (string \<times> rat \<times> string) list" where
  "cmd_bars (BarhCat ls vs cs a) = zip ls (zip vs cs)"
| "cmd_bars _ = []"

definition drawn_bars :: "figure \<Rightarrow> (string \<times> rat \<times> string) list" where
  "drawn_bars fig = concat (map cmd_bars (concat (axes fig)))"

section \<open>Prepared data and colour scheme\<close>

definition names :: "entry list \<Rightarrow> string list" where
  "names es = map (\<lambda>e. str_replace ''Benchmark'' '''' (name e)) es"

definition old_ns :: "entry list \<Rightarrow> rat list" where
  "old_ns es = map old_ns_per_op es"

definition new_ns :: "entry list \<Rightarrow> rat list" where
  "new_ns es = map new_ns_per_op es"

definition pct_changes :: "entry list \<Rightarrow> rat list" where
  "pct_changes es = map ns_per_op_change_pct es"

definition categories :: "entry list \<Rightarrow> string list" where
  "categories es = map category es"

definition color_old :: string where "color_old = ''#4A90D9''"
definition color_new :: string where "color_new = ''#E74C3C''"
definition color_better :: string where "color_better = ''#27AE60''"
definition color_worse :: string where "color_worse = ''#E74C3C''"
definition color_neutral :: string where "color_neutral = ''#95A5A6''"

section \<open>Chart 1: ns/op comparison\<close>

definition chart1 :: "string \<Rightarrow> string \<Rightarrow> entry list \<Rightarrow> figure" where
  "chart1 old_lbl new_lbl es =
     (let x = [0..<length (names es)];
          width = 35 / 100
      in \<lparr>figsize = (max 14 (of_nat (length (names es)) * (8 / 10)), 8),
          axes = [[
            Bar (map (\<lambda>i. of_nat i - width / 2) x) (old_ns es) width old_lbl color_old (85 / 100),
            Bar (map (\<lambda>i. of_nat i + width / 2) x) (new_ns es) width new_lbl color_new (85 / 100),
            Set_xlabel ''Benchmark'',
            Set_ylabel ''ns/op (lower is better)'',
            Set_title (''Performance Comparison: '' @ old_lbl @ '' vs '' @ new_lbl),
            Set_xticks x,
            Set_xticklabels (names es) 45 ''right'' 7,
            Legend None,
            Grid ''y'' (3 / 10),
            Set_yscale ''log'']],
          suptitle = None\<rparr>)"

section \<open>Chart 2: percent change, sorted\<close>

text \<open>
  \<^verbatim>\<open>sorted(range(len(pct_changes)), key=lambda i: pct_changes[i])\<close>: Python's sort
  is ascending and stable, as is \<^const>\<open>sort_key\<close>.
\<close>

definition sorted_indices :: "rat list \<Rightarrow> nat list" where
  "sorted_indices pcs = sort_key (\<lambda>i. pcs ! i) [0..<length pcs]"

definition sorted_names :: "entry list \<Rightarrow> string list" where
  "sorted_names es = map (\<lambda>i. names es ! i) (sorted_indices (pct_changes es))"

definition sorted_changes :: "entry list \<Rightarrow> rat list" where
  "sorted_changes es = map (\<lambda>i. pct_changes es ! i) (sorted_indices (pct_changes es))"

definition bar_colors :: "entry list \<Rightarrow> string list" where
  "bar_colors es =
     map (\<lambda>c. if c < - 1 then color_better else (if c > 1 then color_worse else color_neutral))
       (sorted_changes es)"

definition chart2 :: "(string \<Rightarrow> rat \<Rightarrow> string) \<Rightarrow> string \<Rightarrow> string \<Rightarrow> entry list \<Rightarrow> figure" where
  "chart2 fmt old_lbl new_lbl es =
     \<lparr>figsize = (12, max 6 (of_nat (length (names es)) * (35 / 100))),
      axes = [[
        BarhCat (sorted_names es) (sorted_changes es) (bar_colors es) (85 / 100),
        Axvline 0 ''black'' (8 / 10),
        Set_xlabel ''% Change (negative = improvement)'',
        Set_title (''Performance Change: '' @ old_lbl @ '' -> '' @ new_lbl),
        Grid ''x'' (3 / 10)]
        @ map (\<lambda>(i, (v, nm)).
                 let offset = (if v \<ge> 0 then 5 / 10 else - (5 / 10))
                 in Text (v + offset) i (fmt ''+.1f'' v @ ''%'') ''center'' 7 False)
            (enumerate 0 (zip (sorted_changes es) (sorted_names es)))],
      suptitle = None\<rparr>"

section \<open>Chart 3: allocation comparison\<close>

definition old_bytes :: "entry list \<Rightarrow> rat list" where
  "old_bytes es = map old_bytes_per_op es"

definition new_bytes :: "entry list \<Rightarrow> rat list" where
  "new_bytes es = map new_bytes_per_op es"

definition old_allocs :: "entry list \<Rightarrow> rat list" where
  "old_allocs es = map old_allocs_per_op es"

definition new_allocs :: "entry list \<Rightarrow> rat list" where
  "new_allocs es = map new_allocs_per_op es"

definition chart3 :: "string \<Rightarrow> string \<Rightarrow> entry list \<Rightarrow> figure" where
  "chart3 old_lbl new_lbl es =
     (let y_pos = [0..<length (names es)]
      in \<lparr>figsize = (18, max 6 (of_nat (length (names es)) * (3 / 10))),
          axes = [
            [Barh (map (\<lambda>i. of_nat i - 15 / 100) y_pos) (old_bytes es) (3 / 10) old_lbl color_old (85 / 100),
             Barh (map (\<lambda>i. of_nat i + 15 / 100) y_pos) (new_bytes es) (3 / 10) new_lbl color_new (85 / 100),
             Set_yticks y_pos,
             Set_yticklabels (names es) 7,
             Set_xlabel ''B/op (lower is better)'',
             Set_title ''Bytes per Operation'',
             Legend (Some 8),
             Grid ''x'' (3 / 10)],
            [Barh (map (\<lambda>i. of_nat i - 15 / 100) y_pos) (old_allocs es) (3 / 10) old_lbl color_old (85 / 100),
             Barh (map (\<lambda>i. of_nat i + 15 / 100) y_pos) (new_allocs es) (3 / 10) new_lbl color_new (85 / 100),
             Set_yticks y_pos,
             Set_yticklabels (names es) 7,
             Set_xlabel ''allocs/op (lower is better)'',
             Set_title ''Allocations per Operation'',
             Legend (Some 8),
             Grid ''x'' (3 / 10)]],
          suptitle = Some (''Memory Allocation Comparison: '' @ old_lbl @ '' vs '' @ new_lbl, 14)\<rparr>)"

section \<open>Chart 4: category summary\<close>

text \<open>
  The two dictionaries filled by the loop over the entries. A Python dictionary keeps its
  keys in insertion order and an assignment to a present key keeps the key's place, which
  is what \<^const>\<open>AList.update\<close> does. \<^verbatim>\<open>setdefault(cat, []).append(v)\<close> appends to
  the list stored under the key, starting from the empty list for a new key.
\<close>

definition cat_step ::
  "(string \<times> rat list) list \<times> (string \<times> nat) list \<Rightarrow> entry \<Rightarrow>
   (string \<times> rat list) list \<times> (string \<times> nat) list" where
  "cat_step acc e =
     (let cat = category e;
          cat_changes = fst acc;
          cat_counts = snd acc
      in (AList.update cat
            ((case map_of cat_changes cat of None \<Rightarrow> [] | Some l \<Rightarrow> l) @ [ns_per_op_change_pct e])
            cat_changes,
          AList.update cat
            ((case map_of cat_counts cat of None \<Rightarrow> 0 | Some n \<Rightarrow> n) + 1)
            cat_counts))"

definition cat_changes :: "entry list \<Rightarrow> (string \<times> rat list) list" where
  "cat_changes es = fst (foldl cat_step ([], []) es)"

definition cat_counts :: "entry list \<Rightarrow> (string \<times> nat) list" where
  "cat_counts es = snd (foldl cat_step ([], []) es)"

definition cat_names :: "entry list \<Rightarrow> string list" where
  "cat_names es = sort (map fst (cat_changes es))"

text \<open>A list comprehension whose element expression can raise: the first error ends it.\<close>

fun map_result :: "('a \<Rightarrow> error + 'b) \<Rightarrow> 'a list \<Rightarrow> error + 'b list" where
  "map_result f [] = Inr []"
| "map_result f (x # xs) =
     (case f x of
        Inl e \<Rightarrow> Inl e
      | Inr y \<Rightarrow> (case map_result f xs of Inl e \<Rightarrow> Inl e | Inr ys \<Rightarrow> Inr (y # ys)))"

definition cat_avgs :: "entry list \<Rightarrow> error + rat list" where
  "cat_avgs es =
     map_result (\<lambda>c. case dict_get (cat_changes es) c of Inl e \<Rightarrow> Inl e | Inr l \<Rightarrow> mean l)
       (cat_names es)"

definition cat_labels :: "entry list \<Rightarrow> error + string list" where
  "cat_labels es =
     map_result (\<lambda>c. case dict_get (cat_counts es) c of
                        Inl e \<Rightarrow> Inl e
                      | Inr n \<Rightarrow> Inr (c @ '' (n='' @ str_nat n @ '')''))
       (cat_names es)"

definition cat_colors :: "rat list \<Rightarrow> string list" where
  "cat_colors avgs =
     map (\<lambda>v. if v < - 1 then color_better else (if v > 1 then color_worse else color_neutral))
       avgs"

definition chart4 :: "(string \<Rightarrow> rat \<Rightarrow> string) \<Rightarrow> string \<Rightarrow> string \<Rightarrow> entry list \<Rightarrow> error + figure" where
  "chart4 fmt old_lbl new_lbl es =
     (case cat_avgs es of
        Inl e \<Rightarrow> Inl e
      | Inr avgs \<Rightarrow>
         (case cat_labels es of
            Inl e \<Rightarrow> Inl e
          | Inr labels \<Rightarrow>
              Inr \<lparr>figsize = (10, max 4 (of_nat (length (cat_names es)) * (6 / 10))),
                   axes = [[
                     BarhCat labels avgs (cat_colors avgs) (85 / 100),
                     Axvline 0 ''black'' (8 / 10),
                     Set_xlabel ''Average % Change (negative = improvement)'',
                     Set_title (''Performance Change by Category: '' @ old_lbl @ '' -> '' @ new_lbl),
                     Grid ''x'' (3 / 10)]
                     @ map (\<lambda>(i, v).
                              let offset = (if v \<ge> 0 then 3 / 10 else - (3 / 10))
                              in Text (v + offset) i (fmt ''+.1f'' v @ ''%'') ''center'' 9 True)
                         (enumerate 0 avgs)],
                   suptitle = None\<rparr>))"

section \<open>The program\<close>

text \<open>
  What the process sees of its surroundings: its arguments (\<^verbatim>\<open>sys.argv\<close>, the script's
  name first), whether \<^verbatim>\<open>import matplotlib\<close> succeeds, the JSON parser applied to the
  content of a file, Python's formatting of a number under a format specification, and
  the image the plotting backend writes for a figure at a resolution. The world it acts
  on holds the lines printed so far, the directories known to exist and the content of
  the files.
\<close>

record 'b env =
  argv :: "string list"
  matplotlib_importable :: bool
  json_load :: "'b \<Rightarrow> error + report"
  format_float :: "string \<Rightarrow> rat \<Rightarrow> string"
  render :: "figure \<Rightarrow> nat \<Rightarrow> 'b"

record 'b world =
  console :: "string list"
  dirs :: "string set"
  files :: "string \<rightharpoonup> 'b"

datatype exit_status = Exit nat | Uncaught error

definition check_matplotlib :: "'b env \<Rightarrow> bool" where
  "check_matplotlib env = (if matplotlib_importable env then True else False)"

definition py_print :: "string \<Rightarrow> 'b world \<Rightarrow> 'b world" where
  "py_print s w = w\<lparr>console := console w @ [s]\<rparr>"

text \<open>
  \<^verbatim>\<open>os.makedirs(path, exist_ok=True)\<close> raises when the path is a regular file and
  otherwise leaves the directory in existence. \<^verbatim>\<open>open\<close> raises on a missing file.
  Other failures of the file system (permissions, a full disk while saving a figure) are
  not part of the model: saving a figure succeeds.
\<close>

definition makedirs :: "string \<Rightarrow> 'b world \<Rightarrow> error + 'b world" where
  "makedirs p w =
     (if files w p \<noteq> None then Inl FileExistsError
      else Inr (w\<lparr>dirs := insert p (dirs w)\<rparr>))"

definition open_and_load :: "'b env \<Rightarrow> string \<Rightarrow> 'b world \<Rightarrow> error + report" where
  "open_and_load env p w =
     (case files w p of None \<Rightarrow> Inl FileNotFoundError | Some f \<Rightarrow> json_load env f)"

text \<open>
  The block that ends each chart: the figure is saved under a fixed name in the output
  directory at 150 dpi and a confirmation line is printed.
\<close>

definition save_chart :: "'b env \<Rightarrow> string \<Rightarrow> string \<Rightarrow> figure \<Rightarrow> 'b world \<Rightarrow> 'b world" where
  "save_chart env output_dir fname fig w =
     (let chart_path = path_join output_dir fname
      in py_print (''Saved: '' @ chart_path)
           (w\<lparr>files := (files w)(chart_path \<mapsto> render env fig 150)\<rparr>))"

definition print_usage :: "'b world \<Rightarrow> 'b world" where
  "print_usage w =
     py_print ''  go run hack/benchanalyze/main.go -old results/go-1.25.5.txt -new results/go-1.26.txt -output results/''
       (py_print ''Generate the JSON first:''
         (py_print ''''
           (py_print ''Usage: python3 hack/visualize-benchmarks.py <comparison.json>'' w)))"

definition print_summary :: "'b env \<Rightarrow> string \<Rightarrow> report \<Rightarrow> 'b world \<Rightarrow> 'b world" where
  "print_summary env output_dir rep w =
     py_print (''  Avg change: '' @ format_float env ''+.2f'' (avg_ns_per_op_change_pct (summary rep)) @ ''%'')
       (py_print (''  Ties:       '' @ str_int (ties (summary rep)))
         (py_print (''  '' @ old_label rep @ '' wins: '' @ str_int (old_wins (summary rep)))
           (py_print (''  '' @ new_label rep @ '' wins: '' @ str_int (new_wins (summary rep)))
             (py_print (CHR 0x0A # ''Summary:'')
               (py_print (CHR 0x0A # ''All charts saved to: '' @ output_dir @ ''/'') w)))))"

definition main :: "'b env \<Rightarrow> 'b world \<Rightarrow> 'b world \<times> exit_status" where
  "main env w0 =
     (if length (argv env) < 2 then (print_usage w0, Exit 1)
      else
        let json_path = argv env ! 1;
            output_dir = path_join (dirname json_path) ''charts''
        in case makedirs output_dir w0 of
             Inl e \<Rightarrow> (w0, Uncaught e)
           | Inr w1 \<Rightarrow>
               if \<not> check_matplotlib env then
                 (py_print ''matplotlib is required. Install with: pip install matplotlib'' w1, Exit 1)
               else
                 (case open_and_load env json_path w1 of
                    Inl e \<Rightarrow> (w1, Uncaught e)
                  | Inr rep \<Rightarrow>
                      if entries rep = [] then
                        (py_print ''No benchmark entries found in the report.'' w1, Exit 1)
                      else
                        let w2 = save_chart env output_dir ''ns_per_op_comparison.png''
                                   (chart1 (old_label rep) (new_label rep) (entries rep)) w1;
                            w3 = save_chart env output_dir ''pct_change.png''
                                   (chart2 (format_float env) (old_label rep) (new_label rep) (entries rep)) w2;
                            w4 = save_chart env output_dir ''allocs_comparison.png''
                                   (chart3 (old_label rep) (new_label rep) (entries rep)) w3
                        in (case chart4 (format_float env) (old_label rep) (new_label rep) (entries rep) of
                              Inl e \<Rightarrow> (w4, Uncaught e)
                            | Inr fig4 \<Rightarrow>
                                (print_summary env output_dir rep
                                   (save_chart env output_dir ''category_summary.png'' fig4 w4),
                                 Exit 0))))"

text \<open>A sample entry, for evaluating the program on concrete reports.\<close>

definition sample_entry :: "string \<Rightarrow> string \<Rightarrow> rat \<Rightarrow> entry" where
  "sample_entry n c p =
     \<lparr>name = n, category = c, old_ns_per_op = 100, new_ns_per_op = 100 + p,
      ns_per_op_change_pct = p, old_bytes_per_op = 64, new_bytes_per_op = 48,
      old_allocs_per_op = 2, new_allocs_per_op = 1\<rparr>"

text \<open>
  The display name as the specification words it, for comparison with \<^const>\<open>names\<close>:
  the token is removed only where the name begins with it.
\<close>

definition display_name_spec :: "string \<Rightarrow> string" where
  "display_name_spec n =
     (if prefix ''Benchmark'' n then drop (length ''Benchmark'') n else n)"

text \<open>
  The members of a category as the specification words them: the percent changes of the
  entries carrying that category, in input order.
\<close>

definition category_members :: "entry list \<Rightarrow> string \<Rightarrow> rat list" where
  "category_members es c = map ns_per_op_change_pct (filter (\<lambda>e. category e = c) es)"

text \<open>
  The rows of the numeric bar charts, per axes and per bar series: position and value of
  each bar; and the tick labels set on each axes.
\<close>

fun cmd_rows :: "cmd \<Rightarrow> (rat \<times> rat) list list" where
  "cmd_rows (Bar xs hs w l c a) = [zip xs hs]"
| "cmd_rows (Barh ys ws h l c a) = [zip ys ws]"
| "cmd_rows _ = []"

fun cmd_ticks :: "cmd \<Rightarrow> string list list" where
  "cmd_ticks (Set_xticklabels ls r ha fs) = [ls]"
| "cmd_ticks (Set_yticklabels ls fs) = [ls]"
| "cmd_ticks _ = []"

definition bar_rows :: "figure \<Rightarrow> (rat \<times> rat) list list list" where
  "bar_rows fig = map (\<lambda>ax. concat (map cmd_rows ax)) (axes fig)"

definition tick_labels :: "figure \<Rightarrow> string list list list" where
  "tick_labels fig = map (\<lambda>ax. concat (map cmd_ticks ax)) (axes fig)"

text \<open>
  A sample run: a report of the given entries stored as file content \<open>0\<close> under
  \<^verbatim>\<open>results/comparison.json\<close>, a backend that writes the number of axes of a figure,
  and a world with nothing but that file.
\<close>

definition sample_report :: "entry list \<Rightarrow> report" where
  "sample_report es =
     \<lparr>old_label = ''go1.25'', new_label = ''go1.26'', entries = es,
      summary = \<lparr>new_wins = 1, old_wins = 1, ties = 0, avg_ns_per_op_change_pct = - 1\<rparr>\<rparr>"

definition sample_env :: "bool \<Rightarrow> entry list \<Rightarrow> nat env" where
  "sample_env mpl es =
     \<lparr>argv = [''hack/visualize-benchmarks.py'', ''results/comparison.json''],
      matplotlib_importable = mpl,
      json_load = (\<lambda>b. if b = 0 then Inr (sample_report es) else Inl JSONDecodeError),
      format_float = (\<lambda>s v. []),
      render = (\<lambda>fig dpi. length (axes fig))\<rparr>"

definition sample_world :: "nat world" where
  "sample_world = \<lparr>console = [], dirs = {}, files = [''results/comparison.json'' \<mapsto> 0]\<rparr>"

section \<open>Properties of the charts\<close>

lemma drawn_bars_chart2:
  "drawn_bars (chart2 fmt ol nl es) = zip (sorted_names es) (zip (sorted_changes es) (bar_colors es))"
  by (auto simp: drawn_bars_def chart2_def Let_def split: prod.splits)

lemma drawn_bars_chart4:
  "chart4 fmt ol nl es = Inr fig \<Longrightarrow>
   \<exists>avgs labels. cat_avgs es = Inr avgs \<and> cat_labels es = Inr labels \<and>
     drawn_bars fig = zip labels (zip avgs (cat_colors avgs))"
  by (auto simp: drawn_bars_def chart4_def Let_def split: sum.splits prod.splits)

lemma length_sorted_indices: "length (sorted_indices pcs) = length pcs"
  by (simp add: sorted_indices_def)

lemma set_sorted_indices: "set (sorted_indices pcs) = {0..<length pcs}"
  by (simp add: sorted_indices_def)

lemma mset_sorted_indices: "mset (sorted_indices pcs) = mset [0..<length pcs]"
  by (simp add: sorted_indices_def)

lemma sorted_changes_sorted: "sorted (sorted_changes es)"
  by (simp add: sorted_changes_def sorted_indices_def)

lemma mset_sorted_changes: "mset (sorted_changes es) = mset (pct_changes es)"
proof -
  have "mset (sorted_changes es) = mset (map (\<lambda>i. pct_changes es ! i) [0..<length (pct_changes es)])"
    by (simp add: sorted_changes_def sorted_indices_def)
  then show ?thesis by (simp add: map_nth)
qed

lemma lengths_chart2:
  "length (sorted_names es) = length es" "length (sorted_changes es) = length es"
  "length (bar_colors es) = length es"
  by (simp_all add: sorted_names_def sorted_changes_def bar_colors_def length_sorted_indices pct_changes_def)




lemma map_mid_zip3:
  "length ls = length vs \<Longrightarrow> length vs = length cs \<Longrightarrow>
   map (\<lambda>(l, v, c). v) (zip ls (zip vs cs)) = vs"
  by (induction ls vs cs rule: list_induct3) auto

lemma values_chart2:
  "map (\<lambda>(l, v, c). v) (drawn_bars (chart2 fmt ol nl es)) = sorted_changes es"
  by (simp add: drawn_bars_chart2 map_mid_zip3 lengths_chart2)

lemma sorted_changes_eq_sort: "sorted_changes es = sort (map ns_per_op_change_pct es)"
proof -
  have "mset (sorted_changes es) = mset (map ns_per_op_change_pct es)"
    by (simp add: mset_sorted_changes pct_changes_def)
  then show ?thesis
    using sorted_changes_sorted [of es] by (simp add: properties_for_sort)
qed

lemma insort_key_map:
  "insort_key f (h x) (map h xs) = map h (insort_key (\<lambda>y. f (h y)) x xs)"
  by (induction xs) simp_all

lemma sort_key_map:
  "sort_key f (map h xs) = map h (sort_key (\<lambda>y. f (h y)) xs)"
  by (induction xs) (simp_all add: insort_key_map)

lemma insort_key_cong_set:
  "f x = g x \<Longrightarrow> (\<And>y. y \<in> set xs \<Longrightarrow> f y = g y) \<Longrightarrow> insort_key f x xs = insort_key g x xs"
  by (induction xs) simp_all

lemma sort_key_cong_set:
  "(\<And>y. y \<in> set xs \<Longrightarrow> f y = g y) \<Longrightarrow> sort_key f xs = sort_key g xs"
proof (induction xs)
  case Nil
  then show ?case by simp
next
  case (Cons x xs)
  have "sort_key f xs = sort_key g xs"
    by (rule Cons.IH) (simp add: Cons.prems)
  moreover have "insort_key f x (sort_key g xs) = insort_key g x (sort_key g xs)"
    by (rule insort_key_cong_set) (simp_all add: Cons.prems)
  ultimately show ?case by simp
qed

lemma entries_at_sorted_indices:
  "map (\<lambda>i. es ! i) (sorted_indices (pct_changes es)) = sort_key ns_per_op_change_pct es"
proof -
  have "sorted_indices (pct_changes es)
      = sort_key (\<lambda>i. ns_per_op_change_pct (es ! i)) [0..<length es]"
    unfolding sorted_indices_def pct_changes_def length_map
    by (rule sort_key_cong_set) simp
  moreover have "sort_key ns_per_op_change_pct (map (\<lambda>i. es ! i) [0..<length es])
      = map (\<lambda>i. es ! i) (sort_key (\<lambda>i. ns_per_op_change_pct (es ! i)) [0..<length es])"
    by (rule sort_key_map)
  ultimately show ?thesis
    by (simp add: map_nth)
qed

lemma drawn_bars_chart2_entries:
  "drawn_bars (chart2 fmt ol nl es) =
     map (\<lambda>e. (str_replace ''Benchmark'' '''' (name e), ns_per_op_change_pct e,
               (if ns_per_op_change_pct e < - 1 then color_better
                else if ns_per_op_change_pct e > 1 then color_worse else color_neutral)))
       (sort_key ns_per_op_change_pct es)"
proof -
  let ?si = "sorted_indices (pct_changes es)"
  let ?bar = "\<lambda>e. (str_replace ''Benchmark'' '''' (name e), ns_per_op_change_pct e,
               (if ns_per_op_change_pct e < - 1 then color_better
                else if ns_per_op_change_pct e > 1 then color_worse else color_neutral))"
  have "drawn_bars (chart2 fmt ol nl es) =
      map (\<lambda>i. (names es ! i, pct_changes es ! i,
                 (if pct_changes es ! i < - 1 then color_better
                  else if pct_changes es ! i > 1 then color_worse else color_neutral))) ?si"
    by (simp add: drawn_bars_chart2 sorted_names_def sorted_changes_def bar_colors_def
        zip_map_map zip_same_conv_map)
  also have "\<dots> = map (\<lambda>i. ?bar (es ! i)) ?si"
  proof (rule map_cong [OF refl])
    fix i assume "i \<in> set ?si"
    then have "i < length es"
      by (simp add: set_sorted_indices pct_changes_def)
    then show "(names es ! i, pct_changes es ! i,
                 (if pct_changes es ! i < - 1 then color_better
                  else if pct_changes es ! i > 1 then color_worse else color_neutral))
        = ?bar (es ! i)"
      by (simp add: names_def pct_changes_def)
  qed
  also have "\<dots> = map ?bar (map (\<lambda>i. es ! i) ?si)"
    by (simp add: comp_def)
  finally show ?thesis
    by (simp only: entries_at_sorted_indices)
qed

text \<open>
  C2: the bars of the percent-change chart are the entries themselves, each drawn once
  with its own display name, its own percent change and the colour of that value, in
  the order of the stable ascending sort of the entries by percent change. So there is
  one bar per entry, each value is at most the next one (most improved first), and the
  values drawn are the sorted list of the entries' values, which does not depend on the
  order of the input.
\<close>

theorem delta_bars_sorted:
  assumes "es \<noteq> []"
  shows "drawn_bars (chart2 fmt ol nl es) =
           map (\<lambda>e. (str_replace ''Benchmark'' '''' (name e), ns_per_op_change_pct e,
                     (if ns_per_op_change_pct e < - 1 then color_better
                      else if ns_per_op_change_pct e > 1 then color_worse else color_neutral)))
             (sort_key ns_per_op_change_pct es) \<and>
         mset (drawn_bars (chart2 fmt ol nl es)) =
           image_mset (\<lambda>e. (str_replace ''Benchmark'' '''' (name e), ns_per_op_change_pct e,
                     (if ns_per_op_change_pct e < - 1 then color_better
                      else if ns_per_op_change_pct e > 1 then color_worse else color_neutral)))
             (mset es) \<and>
         length (drawn_bars (chart2 fmt ol nl es)) = length es \<and>
         (\<forall>i. Suc i < length (drawn_bars (chart2 fmt ol nl es)) \<longrightarrow>
            fst (snd (drawn_bars (chart2 fmt ol nl es) ! i))
              \<le> fst (snd (drawn_bars (chart2 fmt ol nl es) ! Suc i))) \<and>
         map (\<lambda>(l, v, c). v) (drawn_bars (chart2 fmt ol nl es)) = sort (map ns_per_op_change_pct es) \<and>
         (\<forall>es'. mset es' = mset es \<longrightarrow>
            map (\<lambda>(l, v, c). v) (drawn_bars (chart2 fmt ol nl es'))
              = map (\<lambda>(l, v, c). v) (drawn_bars (chart2 fmt ol nl es)))"
proof -
  let ?bs = "drawn_bars (chart2 fmt ol nl es)"
  let ?bar = "\<lambda>e. (str_replace ''Benchmark'' '''' (name e), ns_per_op_change_pct e,
               (if ns_per_op_change_pct e < - 1 then color_better
                else if ns_per_op_change_pct e > 1 then color_worse else color_neutral))"
  have bars: "?bs = map ?bar (sort_key ns_per_op_change_pct es)"
    by (rule drawn_bars_chart2_entries)
  have "mset (map ?bar (sort_key ns_per_op_change_pct es)) = image_mset ?bar (mset es)"
    by simp
  then have once: "mset ?bs = image_mset ?bar (mset es)"
    by (simp only: bars)
  have len: "length ?bs = length es"
    by (simp add: drawn_bars_chart2 lengths_chart2)
  have nth: "fst (snd (?bs ! i)) = sorted_changes es ! i" if "i < length es" for i
    using that by (simp add: drawn_bars_chart2 lengths_chart2)
  have adj: "\<forall>i. Suc i < length ?bs \<longrightarrow> fst (snd (?bs ! i)) \<le> fst (snd (?bs ! Suc i))"
  proof (intro allI impI)
    fix i assume a: "Suc i < length ?bs"
    then have "sorted_changes es ! i \<le> sorted_changes es ! Suc i"
      using sorted_changes_sorted [of es] len
      by (simp add: sorted_iff_nth_Suc lengths_chart2)
    with a len show "fst (snd (?bs ! i)) \<le> fst (snd (?bs ! Suc i))"
      by (simp add: nth)
  qed
  have perm: "map (\<lambda>(l, v, c). v) (drawn_bars (chart2 fmt ol nl es'))
              = map (\<lambda>(l, v, c). v) ?bs" if "mset es' = mset es" for es'
  proof -
    have "mset (map ns_per_op_change_pct es') = mset (map ns_per_op_change_pct es)"
      using that by (metis mset_map)
    then have "sort (map ns_per_op_change_pct es') = sort (map ns_per_op_change_pct es)"
      by (simp add: properties_for_sort)
    then show ?thesis by (simp add: values_chart2 sorted_changes_eq_sort)
  qed
  have vals: "map (\<lambda>(l, v, c). v) ?bs = sort (map ns_per_op_change_pct es)"
    by (simp add: values_chart2 sorted_changes_eq_sort)
  have rest: "length ?bs = length es \<and>
         (\<forall>i. Suc i < length ?bs \<longrightarrow> fst (snd (?bs ! i)) \<le> fst (snd (?bs ! Suc i))) \<and>
         map (\<lambda>(l, v, c). v) ?bs = sort (map ns_per_op_change_pct es) \<and>
         (\<forall>es'. mset es' = mset es \<longrightarrow>
            map (\<lambda>(l, v, c). v) (drawn_bars (chart2 fmt ol nl es')) = map (\<lambda>(l, v, c). v) ?bs)"
    using len adj vals perm by blast
  show ?thesis
    by (rule conjI [OF bars conjI [OF once rest]])
qed

theorem delta_bars_sorted_witness:
  "[sample_entry ''BenchmarkB'' ''db'' 3, sample_entry ''BenchmarkA'' ''web'' (- 1)] \<noteq> [] \<and>
   drawn_bars (chart2 (\<lambda>s v. []) ''old'' ''new''
      [sample_entry ''BenchmarkB'' ''db'' 3, sample_entry ''BenchmarkA'' ''web'' (- 1)])
     = [(''A'', - 1, ''#95A5A6''), (''B'', 3, ''#E74C3C'')]"
proof -
  let ?es = "[sample_entry ''BenchmarkB'' ''db'' 3, sample_entry ''BenchmarkA'' ''web'' (- 1)]"
  have h: "?es \<noteq> []"
    by simp
  have r: "map (\<lambda>e. (str_replace ''Benchmark'' '''' (name e), ns_per_op_change_pct e,
                     (if ns_per_op_change_pct e < - 1 then color_better
                      else if ns_per_op_change_pct e > 1 then color_worse else color_neutral)))
             (sort_key ns_per_op_change_pct ?es)
      = [(''A'', - 1, ''#95A5A6''), (''B'', 3, ''#E74C3C'')]"
    by code_simp
  note t = delta_bars_sorted [OF h, of "\<lambda>s v. []" "''old''" "''new''", THEN conjunct1]
  from h t [unfolded r] show ?thesis by (rule conjI)
qed

lemma filter_keeps_order:
  assumes "sorted_wrt R (filter P xs)" "p < q" "q < length xs" "P (xs ! p)" "P (xs ! q)"
  shows "R (xs ! p) (xs ! q)"
proof -
  have xs: "xs = take q xs @ xs ! q # drop (Suc q) xs"
    using assms(3) by (rule id_take_nth_drop)
  have "xs ! p \<in> set (filter P (take q xs))"
    using assms(2,3,4) by (auto simp: in_set_conv_nth intro!: exI [of _ p])
  moreover have "sorted_wrt R (filter P (take q xs) @ xs ! q # filter P (drop (Suc q) xs))"
    using assms(1,5) by (subst (asm) xs) simp
  ultimately show ?thesis
    by (simp add: sorted_wrt_append)
qed


lemma sorted_indices_stable:
  assumes "p < q" "q < length pcs" "pcs ! (sorted_indices pcs ! p) = pcs ! (sorted_indices pcs ! q)"
  shows "sorted_indices pcs ! p < sorted_indices pcs ! q"
proof -
  define k where "k = pcs ! (sorted_indices pcs ! q)"
  have "filter (\<lambda>i. pcs ! i = k) (sorted_indices pcs) = filter (\<lambda>i. pcs ! i = k) [0..<length pcs]"
    unfolding sorted_indices_def by (rule sort_key_stable)
  moreover have "sorted_wrt (<) (filter (\<lambda>i. pcs ! i = k) [0..<length pcs])"
    by (rule sorted_wrt_filter) (rule sorted_wrt_upt)
  ultimately have s: "sorted_wrt (<) (filter (\<lambda>i. pcs ! i = k) (sorted_indices pcs))"
    by (rule ssubst)
  have q: "q < length (sorted_indices pcs)"
    using assms(2) by (simp only: length_sorted_indices)
  have kp: "pcs ! (sorted_indices pcs ! p) = k" and kq: "pcs ! (sorted_indices pcs ! q) = k"
    using assms(3) by (simp_all only: k_def)
  show ?thesis
    by (rule filter_keeps_order [where P = "\<lambda>i. pcs ! i = k", OF s assms(1) q kp kq])
qed

lemma drawn_bars_chart2_nth:
  assumes "p < length es"
  shows "drawn_bars (chart2 fmt ol nl es) ! p =
           (names es ! (sorted_indices (pct_changes es) ! p),
            ns_per_op_change_pct (es ! (sorted_indices (pct_changes es) ! p)),
            bar_colors es ! p)"
proof -
  have "sorted_indices (pct_changes es) ! p \<in> set (sorted_indices (pct_changes es))"
    using assms by (simp add: length_sorted_indices pct_changes_def)
  then have "sorted_indices (pct_changes es) ! p < length es"
    by (simp add: set_sorted_indices pct_changes_def)
  then show ?thesis
    using assms
    by (simp add: drawn_bars_chart2 lengths_chart2 sorted_names_def sorted_changes_def
        length_sorted_indices pct_changes_def)
qed


text \<open>
  C9: the sort of the percent-change chart is stable. The bar at chart position \<open>p\<close> is
  the entry at input position \<open>sorted_indices ! p\<close>; of two bars with equal percent change,
  the one drawn first is the one that comes first in the input.
\<close>

theorem delta_sort_stable:
  assumes "p < q" "q < length es"
    "fst (snd (drawn_bars (chart2 fmt ol nl es) ! p)) = fst (snd (drawn_bars (chart2 fmt ol nl es) ! q))"
  shows "drawn_bars (chart2 fmt ol nl es) ! p =
           (names es ! (sorted_indices (pct_changes es) ! p),
            ns_per_op_change_pct (es ! (sorted_indices (pct_changes es) ! p)),
            bar_colors es ! p) \<and>
         drawn_bars (chart2 fmt ol nl es) ! q =
           (names es ! (sorted_indices (pct_changes es) ! q),
            ns_per_op_change_pct (es ! (sorted_indices (pct_changes es) ! q)),
            bar_colors es ! q) \<and>
         sorted_indices (pct_changes es) ! p < sorted_indices (pct_changes es) ! q \<and>
         sorted_indices (pct_changes es) ! q < length es"
proof -
  let ?si = "sorted_indices (pct_changes es)"
  have p: "p < length es" using assms(1,2) by simp
  have bp: "drawn_bars (chart2 fmt ol nl es) ! p =
      (names es ! (?si ! p), ns_per_op_change_pct (es ! (?si ! p)), bar_colors es ! p)"
    by (rule drawn_bars_chart2_nth [OF p])
  have bq: "drawn_bars (chart2 fmt ol nl es) ! q =
      (names es ! (?si ! q), ns_per_op_change_pct (es ! (?si ! q)), bar_colors es ! q)"
    by (rule drawn_bars_chart2_nth [OF assms(2)])
  have len: "length (pct_changes es) = length es"
    by (simp add: pct_changes_def)
  have ip: "?si ! p < length es"
    using p set_sorted_indices [of "pct_changes es"] nth_mem [of p ?si]
    by (simp add: length_sorted_indices len)
  have iq: "?si ! q < length es"
    using assms(2) set_sorted_indices [of "pct_changes es"] nth_mem [of q ?si]
    by (simp add: length_sorted_indices len)
  have "ns_per_op_change_pct (es ! (?si ! p)) = ns_per_op_change_pct (es ! (?si ! q))"
    using assms(3) unfolding bp bq by simp
  then have "pct_changes es ! (?si ! p) = pct_changes es ! (?si ! q)"
    using ip iq by (simp add: pct_changes_def)
  then have "?si ! p < ?si ! q"
    using assms(1,2) len by (intro sorted_indices_stable) simp_all
  with bp bq iq show ?thesis by blast
qed

theorem delta_sort_stable_witness:
  "map fst (drawn_bars (chart2 (\<lambda>s v. []) ''old'' ''new''
      [sample_entry ''BenchmarkA'' ''web'' 2, sample_entry ''BenchmarkB'' ''db'' (- 1),
       sample_entry ''BenchmarkC'' ''web'' 2])) = [''B'', ''A'', ''C''] \<and>
   sorted_indices (pct_changes
      [sample_entry ''BenchmarkA'' ''web'' 2, sample_entry ''BenchmarkB'' ''db'' (- 1),
       sample_entry ''BenchmarkC'' ''web'' 2]) ! 1
     < sorted_indices (pct_changes
      [sample_entry ''BenchmarkA'' ''web'' 2, sample_entry ''BenchmarkB'' ''db'' (- 1),
       sample_entry ''BenchmarkC'' ''web'' 2]) ! 2"
proof -
  let ?es = "[sample_entry ''BenchmarkA'' ''web'' 2, sample_entry ''BenchmarkB'' ''db'' (- 1),
       sample_entry ''BenchmarkC'' ''web'' 2]"
  have h1: "(1::nat) < 2" by simp
  have h2: "2 < length ?es" by simp
  have h3: "fst (snd (drawn_bars (chart2 (\<lambda>s v. []) ''old'' ''new'' ?es) ! 1))
      = fst (snd (drawn_bars (chart2 (\<lambda>s v. []) ''old'' ''new'' ?es) ! 2))"
    by code_simp
  have h4: "map fst (drawn_bars (chart2 (\<lambda>s v. []) ''old'' ''new'' ?es)) = [''B'', ''A'', ''C'']"
    by code_simp
  from delta_sort_stable [OF h1 h2 h3] h4 show ?thesis by blast
qed

lemma str_replace_no_occurrence:
  assumes "old \<noteq> []" "\<not> sublist old s"
  shows "str_replace old new s = s"
  using assms
proof (induction s)
  case Nil
  then show ?case by (simp add: str_replace.simps)
next
  case (Cons c s)
  have np: "\<not> prefix old (c # s)"
    using Cons.prems(2) by (meson prefix_imp_sublist)
  have ns: "\<not> sublist old s"
    using Cons.prems(2) by (meson sublist_Cons_right)
  show ?case
    using Cons.IH [OF Cons.prems(1) ns] np Cons.prems(1)
    by (subst str_replace.simps) simp
qed

lemma str_replace_first_occurrence:
  assumes "old \<noteq> []" "\<not> sublist old (u @ butlast old)"
  shows "str_replace old new (u @ old @ v) = u @ new @ str_replace old new v"
  using assms
proof (induction u)
  case Nil
  then show ?case by (subst str_replace.simps) simp
next
  case (Cons c u)
  have ns: "\<not> sublist old (u @ butlast old)"
    using Cons.prems(2) by (metis append_Cons sublist_Cons_right)
  have np: "\<not> prefix old ((c # u) @ old @ v)"
  proof
    assume a: "prefix old ((c # u) @ old @ v)"
    have "old @ v = butlast old @ last old # v"
      using Cons.prems(1) by (metis append.assoc append_Cons append_Nil append_butlast_last_id)
    then have e: "(c # u) @ old @ v = ((c # u) @ butlast old) @ last old # v"
      by simp
    have q: "prefix ((c # u) @ butlast old) ((c # u) @ old @ v)"
      unfolding e by (rule prefixI) (rule refl)
    have l: "length old \<le> length ((c # u) @ butlast old)"
      using Cons.prems(1) by (cases old) simp_all
    have "prefix old ((c # u) @ butlast old)"
      by (rule prefix_length_prefix [OF a q l])
    then show False
      using Cons.prems(2) by (meson prefix_imp_sublist)
  qed
  show ?case
    using Cons.IH [OF Cons.prems(1) ns] np Cons.prems(1)
    by (subst str_replace.simps) simp
qed

text \<open>
  C4, as stated, fails: the script calls \<^verbatim>\<open>replace\<close>, which removes the token wherever
  it stands, so a name that does not begin with the token is changed too.
\<close>

theorem display_name_counterexample:
  "\<not> prefix ''Benchmark'' ''FooBenchmarkBar'' \<and>
   names [sample_entry ''FooBenchmarkBar'' ''web'' 0] = [''FooBar''] \<and>
   names [sample_entry ''FooBenchmarkBar'' ''web'' 0]
     \<noteq> map (\<lambda>e. display_name_spec (name e)) [sample_entry ''FooBenchmarkBar'' ''web'' 0]"
  by code_simp

text \<open>
  C4, amended: the display name is the entry's name with every occurrence of the token
  \<^verbatim>\<open>Benchmark\<close> removed, scanning from the left. A name that does not contain the token
  is unchanged; the first occurrence is cut out and the rest of the name is treated
  likewise; a name that begins with the token and has no other occurrence loses exactly
  that prefix; \<^verbatim>\<open>BenchmarkFooBar\<close> is displayed as \<^verbatim>\<open>FooBar\<close>.
\<close>

theorem display_name_removes_token:
  assumes "i < length es"
  shows "length (names es) = length es \<and>
         (\<not> sublist ''Benchmark'' (name (es ! i)) \<longrightarrow> names es ! i = name (es ! i)) \<and>
         (\<forall>u v. name (es ! i) = u @ ''Benchmark'' @ v \<and> \<not> sublist ''Benchmark'' (u @ ''Benchmar'')
            \<longrightarrow> names es ! i = u @ str_replace ''Benchmark'' '''' v) \<and>
         (\<forall>r. name (es ! i) = ''Benchmark'' @ r \<and> \<not> sublist ''Benchmark'' r \<longrightarrow> names es ! i = r) \<and>
         (name (es ! i) = ''BenchmarkFooBar'' \<longrightarrow> names es ! i = ''FooBar'')"
proof -
  have n: "names es ! i = str_replace ''Benchmark'' '''' (name (es ! i))"
    using assms by (simp add: names_def)
  have ne: "''Benchmark'' \<noteq> []" by simp
  have bl: "butlast ''Benchmark'' = ''Benchmar''" by simp
  have a: "\<not> sublist ''Benchmark'' (name (es ! i)) \<longrightarrow> names es ! i = name (es ! i)"
    unfolding n by (intro impI str_replace_no_occurrence [OF ne])
  have b: "names es ! i = u @ str_replace ''Benchmark'' '''' v"
    if "name (es ! i) = u @ ''Benchmark'' @ v" "\<not> sublist ''Benchmark'' (u @ ''Benchmar'')" for u v
  proof -
    have "\<not> sublist ''Benchmark'' (u @ butlast ''Benchmark'')"
      using that(2) unfolding bl .
    from str_replace_first_occurrence [OF ne this, of "''''" v] show ?thesis
      unfolding n that(1) by simp
  qed
  have c: "names es ! i = r" if "name (es ! i) = ''Benchmark'' @ r" "\<not> sublist ''Benchmark'' r" for r
  proof -
    have "\<not> sublist ''Benchmark'' ([] @ ''Benchmar'')"
      by code_simp
    from b [of "[]" r] that(1) this have "names es ! i = str_replace ''Benchmark'' '''' r"
      by simp
    then show ?thesis
      by (simp only: str_replace_no_occurrence [OF ne that(2)])
  qed
  have d: "name (es ! i) = ''BenchmarkFooBar'' \<longrightarrow> names es ! i = ''FooBar''"
  proof
    assume e: "name (es ! i) = ''BenchmarkFooBar''"
    have "str_replace ''Benchmark'' '''' ''BenchmarkFooBar'' = ''FooBar''"
      by code_simp
    then show "names es ! i = ''FooBar''"
      unfolding n e .
  qed
  have l: "length (names es) = length es"
    by (simp add: names_def)
  from l a b c d show ?thesis by blast
qed

theorem display_name_removes_token_witness:
  "0 < length [sample_entry ''BenchmarkFooBar'' ''web'' 0] \<and>
   names [sample_entry ''BenchmarkFooBar'' ''web'' 0] ! 0 = ''FooBar''"
proof -
  have h: "0 < length [sample_entry ''BenchmarkFooBar'' ''web'' 0]" by simp
  have "name ([sample_entry ''BenchmarkFooBar'' ''web'' 0] ! 0) = ''BenchmarkFooBar''"
    by (simp add: sample_entry_def)
  with display_name_removes_token [OF h] h show ?thesis by blast
qed

subsection \<open>The aggregation loop\<close>

lemma cat_step_changes:
  "map_of (fst (cat_step acc e)) c =
     (if c = category e
      then Some ((case map_of (fst acc) c of None \<Rightarrow> [] | Some l \<Rightarrow> l) @ [ns_per_op_change_pct e])
      else map_of (fst acc) c)"
  by (simp add: cat_step_def Let_def AList.update_conv')

lemma cat_step_counts:
  "map_of (snd (cat_step acc e)) c =
     (if c = category e
      then Some ((case map_of (snd acc) c of None \<Rightarrow> 0 | Some n \<Rightarrow> n) + 1)
      else map_of (snd acc) c)"
  by (simp add: cat_step_def Let_def AList.update_conv')

lemma cat_step_keys:
  "fst ` set (fst (cat_step acc e)) = insert (category e) (fst ` set (fst acc))"
  by (simp add: cat_step_def Let_def AList.dom_update)

lemma cat_step_distinct:
  "distinct (map fst (fst acc)) \<Longrightarrow> distinct (map fst (fst (cat_step acc e)))"
  by (simp add: cat_step_def Let_def AList.distinct_update)

lemma foldl_cat_step_changes:
  "map_of (fst (foldl cat_step acc es)) c =
     (if category_members es c = [] then map_of (fst acc) c
      else Some ((case map_of (fst acc) c of None \<Rightarrow> [] | Some l \<Rightarrow> l) @ category_members es c))"
proof (induction es arbitrary: acc)
  case Nil
  then show ?case by (simp add: category_members_def)
next
  case (Cons e es)
  show ?case
    by (simp add: Cons.IH cat_step_changes category_members_def)
qed

lemma foldl_cat_step_counts:
  "map_of (snd (foldl cat_step acc es)) c =
     (if category_members es c = [] then map_of (snd acc) c
      else Some ((case map_of (snd acc) c of None \<Rightarrow> 0 | Some n \<Rightarrow> n) + length (category_members es c)))"
proof (induction es arbitrary: acc)
  case Nil
  then show ?case by (simp add: category_members_def)
next
  case (Cons e es)
  show ?case
    by (simp add: Cons.IH cat_step_counts category_members_def)
qed

lemma foldl_cat_step_keys:
  "fst ` set (fst (foldl cat_step acc es)) = fst ` set (fst acc) \<union> category ` set es"
  by (induction es arbitrary: acc) (auto simp: cat_step_keys)

lemma foldl_cat_step_distinct:
  "distinct (map fst (fst acc)) \<Longrightarrow> distinct (map fst (fst (foldl cat_step acc es)))"
  by (induction es arbitrary: acc) (auto simp: cat_step_distinct)

lemma category_members_empty_iff: "category_members es c = [] \<longleftrightarrow> c \<notin> category ` set es"
  by (auto simp: category_members_def filter_empty_conv)

lemma map_of_cat_changes:
  "map_of (cat_changes es) c =
     (if c \<in> category ` set es then Some (category_members es c) else None)"
  by (simp add: cat_changes_def foldl_cat_step_changes category_members_empty_iff)

lemma map_of_cat_counts:
  "map_of (cat_counts es) c =
     (if c \<in> category ` set es then Some (length (category_members es c)) else None)"
  by (simp add: cat_counts_def foldl_cat_step_counts category_members_empty_iff)

lemma keys_cat_changes: "fst ` set (cat_changes es) = category ` set es"
  by (simp add: cat_changes_def foldl_cat_step_keys)

lemma distinct_cat_changes: "distinct (map fst (cat_changes es))"
  by (simp add: cat_changes_def foldl_cat_step_distinct)

lemma set_cat_names: "set (cat_names es) = category ` set es"
  by (simp add: cat_names_def keys_cat_changes)

lemma strict_sorted_cat_names: "sorted_wrt (<) (cat_names es)"
  by (simp add: cat_names_def strict_sorted_iff distinct_cat_changes)

lemma cat_names_eq: "cat_names es = sorted_list_of_set (category ` set es)"
proof -
  have "sorted (cat_names es)" "distinct (cat_names es)"
    using strict_sorted_cat_names [of es] by (simp_all add: strict_sorted_iff)
  then show ?thesis
    by (intro sorted_distinct_set_unique) (simp_all add: set_cat_names)
qed

lemma map_result_total:
  "(\<And>x. x \<in> set xs \<Longrightarrow> f x = Inr (g x)) \<Longrightarrow> map_result f xs = Inr (map g xs)"
  by (induction xs) simp_all

lemma cat_avgs_eq:
  "cat_avgs es =
     Inr (map (\<lambda>c. sum_list (category_members es c) / of_nat (length (category_members es c)))
            (cat_names es))"
  unfolding cat_avgs_def
proof (rule map_result_total)
  fix c assume "c \<in> set (cat_names es)"
  then have c: "c \<in> category ` set es" by (simp only: set_cat_names)
  then have "category_members es c \<noteq> []" by (simp add: category_members_empty_iff)
  then show "(case dict_get (cat_changes es) c of Inl e \<Rightarrow> Inl e | Inr l \<Rightarrow> mean l)
      = Inr (sum_list (category_members es c) / of_nat (length (category_members es c)))"
    using c by (simp add: dict_get_def map_of_cat_changes mean_def)
qed

lemma cat_labels_eq:
  "cat_labels es =
     Inr (map (\<lambda>c. c @ '' (n='' @ str_nat (length (category_members es c)) @ '')'') (cat_names es))"
  unfolding cat_labels_def
proof (rule map_result_total)
  fix c assume "c \<in> set (cat_names es)"
  then have c: "c \<in> category ` set es" by (simp only: set_cat_names)
  then show "(case dict_get (cat_counts es) c of Inl e \<Rightarrow> Inl e
        | Inr n \<Rightarrow> Inr (c @ '' (n='' @ str_nat n @ '')''))
      = Inr (c @ '' (n='' @ str_nat (length (category_members es c)) @ '')'')"
    by (simp add: dict_get_def map_of_cat_counts)
qed

lemma drawn_bars_chart4_eq:
  "\<exists>fig. chart4 fmt ol nl es = Inr fig \<and>
     drawn_bars fig =
       map (\<lambda>c. (c @ '' (n='' @ str_nat (length (category_members es c)) @ '')'',
                 sum_list (category_members es c) / of_nat (length (category_members es c)),
                 (if sum_list (category_members es c) / of_nat (length (category_members es c)) < - 1
                  then color_better
                  else if sum_list (category_members es c) / of_nat (length (category_members es c)) > 1
                  then color_worse else color_neutral)))
         (cat_names es)"
proof -
  obtain fig where f: "chart4 fmt ol nl es = Inr fig"
    by (simp add: chart4_def cat_avgs_eq cat_labels_eq)
  from drawn_bars_chart4 [OF f] have
    "drawn_bars fig =
       zip (map (\<lambda>c. c @ '' (n='' @ str_nat (length (category_members es c)) @ '')'') (cat_names es))
         (zip (map (\<lambda>c. sum_list (category_members es c) / of_nat (length (category_members es c))) (cat_names es))
            (cat_colors (map (\<lambda>c. sum_list (category_members es c) / of_nat (length (category_members es c))) (cat_names es))))"
    by (auto simp: cat_avgs_eq cat_labels_eq)
  then have "drawn_bars fig =
       map (\<lambda>c. (c @ '' (n='' @ str_nat (length (category_members es c)) @ '')'',
                 sum_list (category_members es c) / of_nat (length (category_members es c)),
                 (if sum_list (category_members es c) / of_nat (length (category_members es c)) < - 1
                  then color_better
                  else if sum_list (category_members es c) / of_nat (length (category_members es c)) > 1
                  then color_worse else color_neutral)))
         (cat_names es)"
    by (simp add: cat_colors_def zip_map_map zip_same_conv_map)
  with f show ?thesis by blast
qed

text \<open>
  C3: the category chart has one row per distinct category, in lexicographic order of the
  category names whatever the order of the input; the value of a row is the arithmetic
  mean of the percent changes of the category's entries and its label is the category
  name followed by the number of those entries. A category with members -10, +2 and -1
  gets the mean -3 and the count 3.
\<close>

theorem category_rollup_rows:
  assumes "es \<noteq> []"
  shows "\<exists>fig. chart4 fmt ol nl es = Inr fig \<and>
           map fst (drawn_bars fig) =
             map (\<lambda>c. c @ '' (n='' @ str_nat (length (category_members es c)) @ '')'') (cat_names es) \<and>
           map (\<lambda>(l, v, c). v) (drawn_bars fig) =
             map (\<lambda>c. sum_list (category_members es c) / of_nat (length (category_members es c)))
               (cat_names es) \<and>
           length (drawn_bars fig) = card (category ` set es) \<and>
           cat_names es = sorted_list_of_set (category ` set es) \<and>
           sorted_wrt (<) (cat_names es) \<and>
           (\<forall>c. category_members es c = [- 10, 2, - 1] \<longrightarrow>
              (c @ '' (n=3)'', - 3, color_better) \<in> set (drawn_bars fig))"
proof -
  let ?label = "\<lambda>c. c @ '' (n='' @ str_nat (length (category_members es c)) @ '')''"
  let ?mean = "\<lambda>c. sum_list (category_members es c) / of_nat (length (category_members es c))"
  let ?col = "\<lambda>c. if ?mean c < - 1 then color_better else if ?mean c > 1 then color_worse else color_neutral"
  from drawn_bars_chart4_eq [of fmt ol nl es] obtain fig where
    f: "chart4 fmt ol nl es = Inr fig" and
    b: "drawn_bars fig = map (\<lambda>c. (?label c, ?mean c, ?col c)) (cat_names es)"
    by blast
  have l: "map fst (drawn_bars fig) = map ?label (cat_names es)"
    unfolding b by (simp add: comp_def)
  have v: "map (\<lambda>(l, v, c). v) (drawn_bars fig) = map ?mean (cat_names es)"
    unfolding b by (simp add: comp_def)
  have n: "length (drawn_bars fig) = card (category ` set es)"
    unfolding b by (simp add: cat_names_eq)
  have "str_nat 3 = ''3''" by code_simp
  then have three: "str_nat (Suc (Suc (Suc 0))) = ''3''"
    by (simp only: numeral_3_eq_3)
  have ex: "(c @ '' (n=3)'', - 3, color_better) \<in> set (drawn_bars fig)"
    if m: "category_members es c = [- 10, 2, - 1]" for c
  proof -
    have "category_members es c \<noteq> []" using m by simp
    then have "c \<in> set (cat_names es)"
      by (simp add: set_cat_names category_members_empty_iff)
    then have "(?label c, ?mean c, ?col c) \<in> set (drawn_bars fig)"
      unfolding b set_map by (rule imageI)
    then show ?thesis
      by (simp add: m three)
  qed
  from f l v n ex cat_names_eq [of es] strict_sorted_cat_names [of es] show ?thesis
    by blast
qed

theorem category_rollup_rows_witness:
  "[sample_entry ''BenchmarkA'' ''web'' (- 10), sample_entry ''BenchmarkB'' ''db'' 5,
    sample_entry ''BenchmarkC'' ''web'' 2, sample_entry ''BenchmarkD'' ''web'' (- 1)] \<noteq> [] \<and>
   (\<exists>fig. chart4 (\<lambda>s v. []) ''old'' ''new''
      [sample_entry ''BenchmarkA'' ''web'' (- 10), sample_entry ''BenchmarkB'' ''db'' 5,
       sample_entry ''BenchmarkC'' ''web'' 2, sample_entry ''BenchmarkD'' ''web'' (- 1)] = Inr fig \<and>
      (''web (n=3)'', - 3, color_better) \<in> set (drawn_bars fig))"
proof -
  let ?es = "[sample_entry ''BenchmarkA'' ''web'' (- 10), sample_entry ''BenchmarkB'' ''db'' 5,
    sample_entry ''BenchmarkC'' ''web'' 2, sample_entry ''BenchmarkD'' ''web'' (- 1)]"
  have h: "?es \<noteq> []" by simp
  have m: "category_members ?es ''web'' = [- 10, 2, - 1]"
    by (simp add: category_members_def sample_entry_def)
  from category_rollup_rows [OF h, of "\<lambda>s v. []" "''old''" "''new''"] obtain fig where
    "chart4 (\<lambda>s v. []) ''old'' ''new'' ?es = Inr fig"
    "\<forall>c. category_members ?es c = [- 10, 2, - 1] \<longrightarrow>
        (c @ '' (n=3)'', - 3, color_better) \<in> set (drawn_bars fig)"
    by blast
  with m have "chart4 (\<lambda>s v. []) ''old'' ''new'' ?es = Inr fig \<and>
      (''web'' @ '' (n=3)'', - 3, color_better) \<in> set (drawn_bars fig)"
    by blast
  then have "\<exists>fig. chart4 (\<lambda>s v. []) ''old'' ''new'' ?es = Inr fig \<and>
      (''web (n=3)'', - 3, color_better) \<in> set (drawn_bars fig)"
    by auto
  with h show ?thesis by blast
qed

text \<open>
  C10: every key of the aggregation maps to a non-empty list, so the division of the mean
  is by a positive number and does not raise, and the count shown in the row's label is
  the length of the list that is averaged.
\<close>

theorem category_lists_nonempty:
  assumes "(c, l) \<in> set (cat_changes es)"
  shows "l \<noteq> [] \<and> 0 < length l \<and>
         mean l = Inr (sum_list l / of_nat (length l)) \<and>
         dict_get (cat_counts es) c = Inr (length l) \<and>
         (\<exists>avgs labels. cat_avgs es = Inr avgs \<and> cat_labels es = Inr labels \<and>
            length avgs = length (cat_names es) \<and> length labels = length (cat_names es) \<and>
            (\<exists>i < length (cat_names es). cat_names es ! i = c \<and>
               avgs ! i = sum_list l / of_nat (length l) \<and>
               labels ! i = c @ '' (n='' @ str_nat (length l) @ '')''))"
proof -
  have "map_of (cat_changes es) c = Some l"
    using assms distinct_cat_changes [of es] by simp
  then have c: "c \<in> category ` set es" and l: "l = category_members es c"
    by (simp_all add: map_of_cat_changes split: if_splits)
  have ne: "l \<noteq> []"
    using c l by (simp add: category_members_empty_iff)
  have m: "mean l = Inr (sum_list l / of_nat (length l))"
    using ne by (simp add: mean_def)
  have n: "dict_get (cat_counts es) c = Inr (length l)"
    using c l by (simp add: dict_get_def map_of_cat_counts)
  from c have "c \<in> set (cat_names es)"
    by (simp only: set_cat_names)
  then obtain i where i: "i < length (cat_names es)" "cat_names es ! i = c"
    by (auto simp: in_set_conv_nth)
  let ?avgs = "map (\<lambda>c. sum_list (category_members es c) / of_nat (length (category_members es c)))
            (cat_names es)"
  let ?labels = "map (\<lambda>c. c @ '' (n='' @ str_nat (length (category_members es c)) @ '')'') (cat_names es)"
  have a: "?avgs ! i = sum_list l / of_nat (length l)"
    using i l by simp
  have b: "?labels ! i = c @ '' (n='' @ str_nat (length l) @ '')''"
    using i l by simp
  have "\<exists>i < length (cat_names es). cat_names es ! i = c \<and>
      ?avgs ! i = sum_list l / of_nat (length l) \<and>
      ?labels ! i = c @ '' (n='' @ str_nat (length l) @ '')''"
    using i a b by blast
  then have "\<exists>avgs labels. cat_avgs es = Inr avgs \<and> cat_labels es = Inr labels \<and>
            length avgs = length (cat_names es) \<and> length labels = length (cat_names es) \<and>
            (\<exists>i < length (cat_names es). cat_names es ! i = c \<and>
               avgs ! i = sum_list l / of_nat (length l) \<and>
               labels ! i = c @ '' (n='' @ str_nat (length l) @ '')'')"
    by (intro exI [of _ ?avgs] exI [of _ ?labels] conjI cat_avgs_eq cat_labels_eq) simp_all
  with ne m n show ?thesis by blast
qed

theorem category_lists_nonempty_witness:
  "(''web'', [- 10, 2, - 1]) \<in> set (cat_changes
      [sample_entry ''BenchmarkA'' ''web'' (- 10), sample_entry ''BenchmarkB'' ''db'' 5,
       sample_entry ''BenchmarkC'' ''web'' 2, sample_entry ''BenchmarkD'' ''web'' (- 1)]) \<and>
   mean [- 10, 2, - 1] = Inr (sum_list [- 10, 2, - 1] / of_nat (length [- 10, 2, - 1 :: rat])) \<and>
   dict_get (cat_counts
      [sample_entry ''BenchmarkA'' ''web'' (- 10), sample_entry ''BenchmarkB'' ''db'' 5,
       sample_entry ''BenchmarkC'' ''web'' 2, sample_entry ''BenchmarkD'' ''web'' (- 1)]) ''web''
     = Inr (length [- 10, 2, - 1 :: rat])"
proof -
  have h: "(''web'', [- 10, 2, - 1]) \<in> set (cat_changes
      [sample_entry ''BenchmarkA'' ''web'' (- 10), sample_entry ''BenchmarkB'' ''db'' 5,
       sample_entry ''BenchmarkC'' ''web'' 2, sample_entry ''BenchmarkD'' ''web'' (- 1)])"
    by code_simp
  from category_lists_nonempty [OF h] h show ?thesis by blast
qed

subsection \<open>Paths\<close>

lemma path_join_neq_dir:
  assumes "b \<noteq> []" "\<not> prefix ''/'' b"
  shows "path_join a b \<noteq> a"
  using assms by (auto simp: path_join_def)

lemma path_join_inj:
  assumes "\<not> prefix ''/'' b" "\<not> prefix ''/'' c"
  shows "path_join a b = path_join a c \<longleftrightarrow> b = c"
  using assms by (auto simp: path_join_def)

lemma dirname_of_joined:
  assumes "CHR ''/'' \<notin> set f" "od \<noteq> []" "last od \<noteq> CHR ''/''"
  shows "dirname (od @ ''/'' @ f) = od"
proof -
  have f: "dropWhile (\<lambda>c. c \<noteq> CHR ''/'') (rev f) = []"
    using assms(1) by (auto simp: dropWhile_eq_Nil_conv)
  have "dropWhile (\<lambda>c. c \<noteq> CHR ''/'') (rev (od @ ''/'' @ f)) = CHR ''/'' # rev od"
    by (simp add: dropWhile_append3 f)
  then have head: "rev (dropWhile (\<lambda>c. c \<noteq> CHR ''/'') (rev (od @ ''/'' @ f))) = od @ ''/''"
    by simp
  obtain x c where od: "od = x @ [c]" and c: "c \<noteq> CHR ''/''"
    using assms(2,3) by (metis append_butlast_last_id)
  have ns: "od @ ''/'' \<noteq> replicate (length (od @ ''/'')) CHR ''/''"
  proof
    assume "od @ ''/'' = replicate (length (od @ ''/'')) CHR ''/''"
    then have "set (od @ ''/'') \<subseteq> {CHR ''/''}"
      by (metis set_replicate_conv_if empty_subsetI subset_refl)
    then show False using od c by simp
  qed
  have rs: "rstrip_slash (od @ ''/'') = od"
    using c by (simp add: rstrip_slash_def od)
  show ?thesis
    unfolding dirname_def head using ns rs by (simp add: Let_def)
qed

lemma output_dir_shape:
  "path_join d ''charts'' \<noteq> [] \<and> last (path_join d ''charts'') \<noteq> CHR ''/'' \<and>
   path_join d ''charts'' \<noteq> d"
  by (simp add: path_join_def)

lemma chart_path_eq:
  assumes "\<not> prefix ''/'' f"
  shows "path_join (path_join d ''charts'') f = path_join d ''charts'' @ ''/'' @ f"
proof -
  have "\<not> suffix ''/'' (path_join d ''charts'')"
    by (auto simp: path_join_def suffix_def)
  then show ?thesis
    using assms output_dir_shape [of d] by (simp add: path_join_def [of "path_join d ''charts''"])
qed

lemma chart_path_neq_input:
  assumes "CHR ''/'' \<notin> set f"
  shows "path_join (path_join (dirname p) ''charts'') f \<noteq> p"
proof
  assume e: "path_join (path_join (dirname p) ''charts'') f = p"
  have np: "\<not> prefix ''/'' f"
    using assms by (auto simp: prefix_def)
  have "p = path_join (dirname p) ''charts'' @ ''/'' @ f"
    using e chart_path_eq [OF np, of "dirname p"] by simp
  then have "dirname p = dirname (path_join (dirname p) ''charts'' @ ''/'' @ f)"
    by simp
  also have "\<dots> = path_join (dirname p) ''charts''"
    using output_dir_shape [of "dirname p"] by (intro dirname_of_joined [OF assms]) simp_all
  finally show False
    using output_dir_shape [of "dirname p"] by simp
qed

subsection \<open>The branches of the program\<close>

lemma chart4_total: "\<exists>fig. chart4 fmt ol nl es = Inr fig"
  using drawn_bars_chart4_eq [of fmt ol nl es] by blast

lemma main_usage:
  "length (argv env) < 2 \<Longrightarrow> main env w = (print_usage w, Exit 1)"
  by (simp add: main_def)

lemma main_makedirs_fails:
  assumes "\<not> length (argv env) < 2"
    "files w (path_join (dirname (argv env ! 1)) ''charts'') \<noteq> None"
  shows "main env w = (w, Uncaught FileExistsError)"
  using assms by (simp add: main_def Let_def makedirs_def)

lemma main_no_matplotlib:
  assumes "\<not> length (argv env) < 2"
    "files w (path_join (dirname (argv env ! 1)) ''charts'') = None"
    "\<not> matplotlib_importable env"
  shows "main env w =
           (w\<lparr>console := console w @ [''matplotlib is required. Install with: pip install matplotlib''],
              dirs := insert (path_join (dirname (argv env ! 1)) ''charts'') (dirs w)\<rparr>,
            Exit 1)"
  using assms by (simp add: main_def Let_def makedirs_def check_matplotlib_def py_print_def)

lemma main_load_fails:
  assumes "\<not> length (argv env) < 2"
    "files w (path_join (dirname (argv env ! 1)) ''charts'') = None"
    "matplotlib_importable env"
    "open_and_load env (argv env ! 1) w = Inl e"
  shows "main env w =
           (w\<lparr>dirs := insert (path_join (dirname (argv env ! 1)) ''charts'') (dirs w)\<rparr>,
            Uncaught e)"
proof -
  have "open_and_load env (argv env ! 1)
          (w\<lparr>dirs := insert (path_join (dirname (argv env ! 1)) ''charts'') (dirs w)\<rparr>) = Inl e"
    using assms(4) by (simp add: open_and_load_def)
  then show ?thesis
    using assms(1-3) by (simp add: main_def Let_def makedirs_def check_matplotlib_def)
qed

lemma main_no_entries:
  assumes "\<not> length (argv env) < 2"
    "files w (path_join (dirname (argv env ! 1)) ''charts'') = None"
    "matplotlib_importable env"
    "open_and_load env (argv env ! 1) w = Inr rep"
    "entries rep = []"
  shows "main env w =
           (w\<lparr>console := console w @ [''No benchmark entries found in the report.''],
              dirs := insert (path_join (dirname (argv env ! 1)) ''charts'') (dirs w)\<rparr>,
            Exit 1)"
proof -
  have "open_and_load env (argv env ! 1)
          (w\<lparr>dirs := insert (path_join (dirname (argv env ! 1)) ''charts'') (dirs w)\<rparr>) = Inr rep"
    using assms(4) by (simp add: open_and_load_def)
  then show ?thesis
    using assms(1-3,5) by (simp add: main_def Let_def makedirs_def check_matplotlib_def py_print_def)
qed

lemma main_renders:
  assumes "\<not> length (argv env) < 2"
    "files w (path_join (dirname (argv env ! 1)) ''charts'') = None"
    "matplotlib_importable env"
    "open_and_load env (argv env ! 1) w = Inr rep"
    "entries rep \<noteq> []"
    "chart4 (format_float env) (old_label rep) (new_label rep) (entries rep) = Inr fig4"
  shows "main env w =
           (print_summary env (path_join (dirname (argv env ! 1)) ''charts'') rep
             (save_chart env (path_join (dirname (argv env ! 1)) ''charts'') ''category_summary.png'' fig4
               (save_chart env (path_join (dirname (argv env ! 1)) ''charts'') ''allocs_comparison.png''
                  (chart3 (old_label rep) (new_label rep) (entries rep))
                 (save_chart env (path_join (dirname (argv env ! 1)) ''charts'') ''pct_change.png''
                    (chart2 (format_float env) (old_label rep) (new_label rep) (entries rep))
                   (save_chart env (path_join (dirname (argv env ! 1)) ''charts'') ''ns_per_op_comparison.png''
                      (chart1 (old_label rep) (new_label rep) (entries rep))
                     (w\<lparr>dirs := insert (path_join (dirname (argv env ! 1)) ''charts'') (dirs w)\<rparr>))))),
            Exit 0)"
proof -
  have "open_and_load env (argv env ! 1)
          (w\<lparr>dirs := insert (path_join (dirname (argv env ! 1)) ''charts'') (dirs w)\<rparr>) = Inr rep"
    using assms(4) by (simp add: open_and_load_def)
  then show ?thesis
    using assms(1-3,5,6) by (simp add: main_def Let_def makedirs_def check_matplotlib_def)
qed

text \<open>
  C5: when the report is read and parsed but has no entries, the process prints the
  "no entries" message and exits with status 1; no file is written.
\<close>

theorem empty_entries_exit:
  assumes "\<not> length (argv env) < 2"
    "files w (path_join (dirname (argv env ! 1)) ''charts'') = None"
    "matplotlib_importable env"
    "open_and_load env (argv env ! 1) w = Inr rep"
    "entries rep = []"
  shows "snd (main env w) = Exit 1 \<and> snd (main env w) \<noteq> Exit 0 \<and>
         console (fst (main env w)) = console w @ [''No benchmark entries found in the report.''] \<and>
         files (fst (main env w)) = files w"
  by (simp add: main_no_entries [OF assms])

theorem empty_entries_exit_witness:
  "snd (main (sample_env True []) sample_world) = Exit 1 \<and>
   console (fst (main (sample_env True []) sample_world))
     = [''No benchmark entries found in the report.''] \<and>
   files (fst (main (sample_env True []) sample_world)) = files sample_world"
proof -
  have a: "\<not> length (argv (sample_env True [])) < 2"
    by (simp add: sample_env_def)
  have p: "path_join (dirname ''results/comparison.json'') ''charts'' = ''results/charts''"
    by code_simp
  have b: "files sample_world (path_join (dirname (argv (sample_env True []) ! 1)) ''charts'') = None"
    by (simp add: sample_env_def p sample_world_def)
  have c: "matplotlib_importable (sample_env True [])"
    by (simp add: sample_env_def)
  have d: "open_and_load (sample_env True []) (argv (sample_env True []) ! 1) sample_world
      = Inr (sample_report [])"
    by (simp add: open_and_load_def sample_env_def sample_world_def)
  have e: "entries (sample_report []) = []"
    by (simp add: sample_report_def)
  have "console sample_world = []"
    by (simp add: sample_world_def)
  with empty_entries_exit [OF a b c d e] show ?thesis by simp
qed

text \<open>
  C6, as stated, fails: the output directory is created before the check for matplotlib,
  so a directory that did not exist is on disk when the process exits.
\<close>

theorem matplotlib_missing_counterexample:
  "''results/charts'' \<notin> dirs sample_world \<and>
   ''results/charts'' \<in> dirs (fst (main (sample_env False []) sample_world)) \<and>
   snd (main (sample_env False []) sample_world) = Exit 1"
proof -
  have a: "\<not> length (argv (sample_env False [])) < 2"
    by (simp add: sample_env_def)
  have p: "path_join (dirname ''results/comparison.json'') ''charts'' = ''results/charts''"
    by code_simp
  have b: "files sample_world (path_join (dirname (argv (sample_env False []) ! 1)) ''charts'') = None"
    by (simp add: sample_env_def p sample_world_def)
  have c: "\<not> matplotlib_importable (sample_env False [])"
    by (simp add: sample_env_def)
  have q: "path_join (dirname (argv (sample_env False []) ! 1)) ''charts'' = ''results/charts''"
    by (simp add: sample_env_def p)
  note m = main_no_matplotlib [OF a b c, unfolded q]
  show ?thesis
    unfolding m by (simp add: sample_world_def)
qed

text \<open>
  C6, amended: when matplotlib cannot be imported, the process prints the install
  instruction and exits with status 1 without reading or writing any file; the only
  thing it has done on disk is to make sure the output directory exists.
\<close>

theorem matplotlib_missing_exit:
  assumes "\<not> length (argv env) < 2"
    "files w (path_join (dirname (argv env ! 1)) ''charts'') = None"
    "\<not> matplotlib_importable env"
  shows "snd (main env w) = Exit 1 \<and> snd (main env w) \<noteq> Exit 0 \<and>
         console (fst (main env w))
           = console w @ [''matplotlib is required. Install with: pip install matplotlib''] \<and>
         files (fst (main env w)) = files w \<and>
         dirs (fst (main env w)) = insert (path_join (dirname (argv env ! 1)) ''charts'') (dirs w)"
  by (simp add: main_no_matplotlib [OF assms])

theorem matplotlib_missing_exit_witness:
  "snd (main (sample_env False []) sample_world) = Exit 1 \<and>
   console (fst (main (sample_env False []) sample_world))
     = [''matplotlib is required. Install with: pip install matplotlib''] \<and>
   files (fst (main (sample_env False []) sample_world)) = files sample_world \<and>
   dirs (fst (main (sample_env False []) sample_world)) = {''results/charts''}"
proof -
  have a: "\<not> length (argv (sample_env False [])) < 2"
    by (simp add: sample_env_def)
  have p: "path_join (dirname ''results/comparison.json'') ''charts'' = ''results/charts''"
    by code_simp
  have b: "files sample_world (path_join (dirname (argv (sample_env False []) ! 1)) ''charts'') = None"
    by (simp add: sample_env_def p sample_world_def)
  have c: "\<not> matplotlib_importable (sample_env False [])"
    by (simp add: sample_env_def)
  have q: "path_join (dirname (argv (sample_env False []) ! 1)) ''charts'' = ''results/charts''"
    by (simp add: sample_env_def p)
  have "console sample_world = []" "dirs sample_world = {}"
    by (simp_all add: sample_world_def)
  with matplotlib_missing_exit [OF a b c, unfolded q] show ?thesis by simp
qed

subsection \<open>What a run changes\<close>

lemma save_chart_eq:
  "save_chart env od f fig w =
     w\<lparr>console := console w @ [''Saved: '' @ path_join od f],
       files := (files w)(path_join od f \<mapsto> render env fig 150)\<rparr>"
  by (simp add: save_chart_def py_print_def Let_def)

lemma print_summary_eq:
  "print_summary env od rep w =
     w\<lparr>console := console w @
        [CHR 0x0A # ''All charts saved to: '' @ od @ ''/'',
         CHR 0x0A # ''Summary:'',
         ''  '' @ new_label rep @ '' wins: '' @ str_int (new_wins (summary rep)),
         ''  '' @ old_label rep @ '' wins: '' @ str_int (old_wins (summary rep)),
         ''  Ties:       '' @ str_int (ties (summary rep)),
         ''  Avg change: '' @ format_float env ''+.2f'' (avg_ns_per_op_change_pct (summary rep)) @ ''%'']\<rparr>"
  by (simp add: print_summary_def py_print_def)

lemma print_usage_eq:
  "print_usage w =
     w\<lparr>console := console w @
        [''Usage: python3 hack/visualize-benchmarks.py <comparison.json>'',
         '''',
         ''Generate the JSON first:'',
         ''  go run hack/benchanalyze/main.go -old results/go-1.25.5.txt -new results/go-1.26.txt -output results/'']\<rparr>"
  by (simp add: print_usage_def py_print_def)

lemma open_and_load_cong:
  "files w' p = files w p \<Longrightarrow> open_and_load env p w' = open_and_load env p w"
  by (simp add: open_and_load_def)

lemma main_renders_eq:
  assumes "\<not> length (argv env) < 2"
    "od = path_join (dirname (argv env ! 1)) ''charts''"
    "files w od = None"
    "matplotlib_importable env"
    "open_and_load env (argv env ! 1) w = Inr rep"
    "entries rep \<noteq> []"
    "chart4 (format_float env) (old_label rep) (new_label rep) (entries rep) = Inr fig4"
  shows "main env w =
     (w\<lparr>console := console w @
          [''Saved: '' @ path_join od ''ns_per_op_comparison.png'',
           ''Saved: '' @ path_join od ''pct_change.png'',
           ''Saved: '' @ path_join od ''allocs_comparison.png'',
           ''Saved: '' @ path_join od ''category_summary.png'',
           CHR 0x0A # ''All charts saved to: '' @ od @ ''/'',
           CHR 0x0A # ''Summary:'',
           ''  '' @ new_label rep @ '' wins: '' @ str_int (new_wins (summary rep)),
           ''  '' @ old_label rep @ '' wins: '' @ str_int (old_wins (summary rep)),
           ''  Ties:       '' @ str_int (ties (summary rep)),
           ''  Avg change: '' @ format_float env ''+.2f'' (avg_ns_per_op_change_pct (summary rep)) @ ''%''],
        dirs := insert od (dirs w),
        files := (files w)
          (path_join od ''ns_per_op_comparison.png'' \<mapsto>
             render env (chart1 (old_label rep) (new_label rep) (entries rep)) 150,
           path_join od ''pct_change.png'' \<mapsto>
             render env (chart2 (format_float env) (old_label rep) (new_label rep) (entries rep)) 150,
           path_join od ''allocs_comparison.png'' \<mapsto>
             render env (chart3 (old_label rep) (new_label rep) (entries rep)) 150,
           path_join od ''category_summary.png'' \<mapsto> render env fig4 150)\<rparr>,
      Exit 0)"
  using main_renders [OF assms(1) assms(3) [unfolded assms(2)] assms(4-7)]
  unfolding assms(2) [symmetric]
  by (simp add: save_chart_eq print_summary_eq)

subsection \<open>Rows in input order\<close>

lemma zip_positions:
  "zip (map f [0..<length es]) (map g es) = map (\<lambda>(i, e). (f i, g e)) (enumerate 0 es)"
  by (simp add: enumerate_eq_zip zip_map_map)

lemma bar_rows_chart3:
  "bar_rows (chart3 ol nl es) =
     [[map (\<lambda>(i, e). (of_nat i - 15 / 100, old_bytes_per_op e)) (enumerate 0 es),
       map (\<lambda>(i, e). (of_nat i + 15 / 100, new_bytes_per_op e)) (enumerate 0 es)],
      [map (\<lambda>(i, e). (of_nat i - 15 / 100, old_allocs_per_op e)) (enumerate 0 es),
       map (\<lambda>(i, e). (of_nat i + 15 / 100, new_allocs_per_op e)) (enumerate 0 es)]]"
  by (simp add: bar_rows_def chart3_def Let_def names_def old_bytes_def new_bytes_def
      old_allocs_def new_allocs_def zip_positions)

lemma bar_rows_chart1:
  "bar_rows (chart1 ol nl es) =
     [[map (\<lambda>(i, e). (of_nat i - 35 / 100 / 2, old_ns_per_op e)) (enumerate 0 es),
       map (\<lambda>(i, e). (of_nat i + 35 / 100 / 2, new_ns_per_op e)) (enumerate 0 es)]]"
  by (simp add: bar_rows_def chart1_def Let_def names_def old_ns_def new_ns_def zip_positions)

lemma tick_labels_chart3:
  "tick_labels (chart3 ol nl es) =
     [[map (\<lambda>e. str_replace ''Benchmark'' '''' (name e)) es],
      [map (\<lambda>e. str_replace ''Benchmark'' '''' (name e)) es]]"
  by (simp add: tick_labels_def chart3_def Let_def names_def)

lemma tick_labels_chart1:
  "tick_labels (chart1 ol nl es) = [[map (\<lambda>e. str_replace ''Benchmark'' '''' (name e)) es]]"
  by (simp add: tick_labels_def chart1_def Let_def names_def)

lemma chart_files_distinct:
  "path_join od ''ns_per_op_comparison.png'' \<noteq> path_join od ''pct_change.png''"
  "path_join od ''ns_per_op_comparison.png'' \<noteq> path_join od ''allocs_comparison.png''"
  "path_join od ''ns_per_op_comparison.png'' \<noteq> path_join od ''category_summary.png''"
  "path_join od ''pct_change.png'' \<noteq> path_join od ''allocs_comparison.png''"
  "path_join od ''pct_change.png'' \<noteq> path_join od ''category_summary.png''"
  "path_join od ''allocs_comparison.png'' \<noteq> path_join od ''category_summary.png''"
  by (simp_all add: path_join_inj)

text \<open>
  C7: the entries are read once and every chart is computed from that same list. In a
  run that draws the charts, the files written for the allocation chart and for the
  comparison chart hold figures whose rows are the entries in input order: row \<open>i\<close> is
  at position \<open>i\<close>, carries the values of the \<open>i\<close>-th entry and is labelled with its
  display name, although the percent-change chart written between them is sorted.
\<close>

theorem rows_in_input_order:
  assumes "\<not> length (argv env) < 2"
    "od = path_join (dirname (argv env ! 1)) ''charts''"
    "files w od = None"
    "matplotlib_importable env"
    "open_and_load env (argv env ! 1) w = Inr rep"
    "entries rep \<noteq> []"
  shows "files (fst (main env w)) (path_join od ''ns_per_op_comparison.png'') =
           Some (render env (chart1 (old_label rep) (new_label rep) (entries rep)) 150) \<and>
         files (fst (main env w)) (path_join od ''pct_change.png'') =
           Some (render env (chart2 (format_float env) (old_label rep) (new_label rep) (entries rep)) 150) \<and>
         files (fst (main env w)) (path_join od ''allocs_comparison.png'') =
           Some (render env (chart3 (old_label rep) (new_label rep) (entries rep)) 150) \<and>
         bar_rows (chart3 (old_label rep) (new_label rep) (entries rep)) =
           [[map (\<lambda>(i, e). (of_nat i - 15 / 100, old_bytes_per_op e)) (enumerate 0 (entries rep)),
             map (\<lambda>(i, e). (of_nat i + 15 / 100, new_bytes_per_op e)) (enumerate 0 (entries rep))],
            [map (\<lambda>(i, e). (of_nat i - 15 / 100, old_allocs_per_op e)) (enumerate 0 (entries rep)),
             map (\<lambda>(i, e). (of_nat i + 15 / 100, new_allocs_per_op e)) (enumerate 0 (entries rep))]] \<and>
         tick_labels (chart3 (old_label rep) (new_label rep) (entries rep)) =
           [[map (\<lambda>e. str_replace ''Benchmark'' '''' (name e)) (entries rep)],
            [map (\<lambda>e. str_replace ''Benchmark'' '''' (name e)) (entries rep)]] \<and>
         bar_rows (chart1 (old_label rep) (new_label rep) (entries rep)) =
           [[map (\<lambda>(i, e). (of_nat i - 35 / 100 / 2, old_ns_per_op e)) (enumerate 0 (entries rep)),
             map (\<lambda>(i, e). (of_nat i + 35 / 100 / 2, new_ns_per_op e)) (enumerate 0 (entries rep))]] \<and>
         tick_labels (chart1 (old_label rep) (new_label rep) (entries rep)) =
           [[map (\<lambda>e. str_replace ''Benchmark'' '''' (name e)) (entries rep)]] \<and>
         sorted (map (\<lambda>(l, v, c). v)
           (drawn_bars (chart2 (format_float env) (old_label rep) (new_label rep) (entries rep))))"
proof -
  obtain fig4 where f: "chart4 (format_float env) (old_label rep) (new_label rep) (entries rep) = Inr fig4"
    using chart4_total by blast
  note m = main_renders_eq [OF assms f]
  have 1: "files (fst (main env w)) (path_join od ''ns_per_op_comparison.png'') =
           Some (render env (chart1 (old_label rep) (new_label rep) (entries rep)) 150)"
    unfolding m by (simp add: chart_files_distinct)
  have 2: "files (fst (main env w)) (path_join od ''pct_change.png'') =
           Some (render env (chart2 (format_float env) (old_label rep) (new_label rep) (entries rep)) 150)"
    unfolding m by (simp add: chart_files_distinct)
  have 3: "files (fst (main env w)) (path_join od ''allocs_comparison.png'') =
           Some (render env (chart3 (old_label rep) (new_label rep) (entries rep)) 150)"
    unfolding m by (simp add: chart_files_distinct)
  have 4: "sorted (map (\<lambda>(l, v, c). v)
           (drawn_bars (chart2 (format_float env) (old_label rep) (new_label rep) (entries rep))))"
    by (simp only: values_chart2 sorted_changes_sorted)
  from 1 2 3 4 show ?thesis
    by (simp only: bar_rows_chart3 bar_rows_chart1 tick_labels_chart3 tick_labels_chart1 simp_thms)
qed

theorem rows_in_input_order_witness:
  "files (fst (main (sample_env True
        [sample_entry ''BenchmarkB'' ''db'' 3, sample_entry ''BenchmarkA'' ''web'' (- 1)])
      sample_world)) ''results/charts/allocs_comparison.png'' = Some 2 \<and>
   tick_labels (chart3 ''go1.25'' ''go1.26''
      [sample_entry ''BenchmarkB'' ''db'' 3, sample_entry ''BenchmarkA'' ''web'' (- 1)])
     = [[[''B'', ''A'']], [[''B'', ''A'']]]"
proof -
  let ?es = "[sample_entry ''BenchmarkB'' ''db'' 3, sample_entry ''BenchmarkA'' ''web'' (- 1)]"
  have a: "\<not> length (argv (sample_env True ?es)) < 2"
    by (simp add: sample_env_def)
  have p: "path_join (dirname ''results/comparison.json'') ''charts'' = ''results/charts''"
    by code_simp
  have od: "''results/charts'' = path_join (dirname (argv (sample_env True ?es) ! 1)) ''charts''"
    by (simp add: sample_env_def p)
  have b: "files sample_world ''results/charts'' = None"
    by (simp add: sample_world_def)
  have c: "matplotlib_importable (sample_env True ?es)"
    by (simp add: sample_env_def)
  have d: "open_and_load (sample_env True ?es) (argv (sample_env True ?es) ! 1) sample_world
      = Inr (sample_report ?es)"
    by (simp add: open_and_load_def sample_env_def sample_world_def)
  have e: "entries (sample_report ?es) \<noteq> []"
    by (simp add: sample_report_def)
  note t = rows_in_input_order [OF a od b c d e]
  have q: "path_join ''results/charts'' ''allocs_comparison.png'' = ''results/charts/allocs_comparison.png''"
    by code_simp
  have r: "render (sample_env True ?es)
      (chart3 (old_label (sample_report ?es)) (new_label (sample_report ?es)) (entries (sample_report ?es))) 150 = 2"
    by (simp add: sample_env_def chart3_def Let_def)
  have l: "old_label (sample_report ?es) = ''go1.25''" "new_label (sample_report ?es) = ''go1.26''"
    "entries (sample_report ?es) = ?es"
    by (simp_all add: sample_report_def)
  have n: "map (\<lambda>e. str_replace ''Benchmark'' '''' (name e)) ?es = [''B'', ''A'']"
    by code_simp
  have 1: "files (fst (main (sample_env True ?es) sample_world)) ''results/charts/allocs_comparison.png'' = Some 2"
    using t [THEN conjunct2, THEN conjunct2, THEN conjunct1] unfolding q r .
  have 2: "tick_labels (chart3 ''go1.25'' ''go1.26'' ?es) = [[[''B'', ''A'']], [[''B'', ''A'']]]"
    using t [THEN conjunct2, THEN conjunct2, THEN conjunct2, THEN conjunct2, THEN conjunct1]
    unfolding l n .
  from 1 2 show ?thesis by (rule conjI)
qed

subsection \<open>A run as a function of the input document\<close>

lemma chart_file_neq_dir:
  "f \<in> set [''ns_per_op_comparison.png'', ''pct_change.png'', ''allocs_comparison.png'',
             ''category_summary.png''] \<Longrightarrow> path_join od f \<noteq> od"
  by (auto simp: path_join_neq_dir)

lemma chart_file_neq_input:
  "f \<in> set [''ns_per_op_comparison.png'', ''pct_change.png'', ''allocs_comparison.png'',
             ''category_summary.png''] \<Longrightarrow>
   path_join (path_join (dirname p) ''charts'') f \<noteq> p"
  by (auto simp: chart_path_neq_input)

lemma main_effect:
  fixes w :: "'b world"
  assumes od: "od = path_join (dirname (argv env ! 1)) ''charts''"
  shows "\<exists>lines ds ups st.
           dom ups \<subseteq> path_join od ` set [''ns_per_op_comparison.png'', ''pct_change.png'',
                                          ''allocs_comparison.png'', ''category_summary.png''] \<and>
           (st = Exit 0 \<longrightarrow>
              dom ups = path_join od ` set [''ns_per_op_comparison.png'', ''pct_change.png'',
                                          ''allocs_comparison.png'', ''category_summary.png'']) \<and>
           (\<forall>w'. files w' (argv env ! 1) = files w (argv env ! 1) \<and>
                 (files w' od = None \<longleftrightarrow> files w od = None) \<longrightarrow>
                 main env w' =
                   (w'\<lparr>console := console w' @ lines, dirs := ds \<union> dirs w',
                       files := files w' ++ ups\<rparr>, st))"
proof -
  let ?Q = "\<lambda>lines ds ups st. (\<forall>w'. files w' (argv env ! 1) = files w (argv env ! 1) \<and>
                 (files w' od = None \<longleftrightarrow> files w od = None) \<longrightarrow>
                 main env w' =
                   (w'\<lparr>console := console w' @ lines, dirs := ds \<union> dirs w',
                       files := files w' ++ ups\<rparr>, st))"
  let ?names = "path_join od ` set [''ns_per_op_comparison.png'', ''pct_change.png'',
                                          ''allocs_comparison.png'', ''category_summary.png'']"
  let ?P = "\<lambda>lines ds ups st. dom ups \<subseteq> ?names \<and> (st = Exit 0 \<longrightarrow> dom ups = ?names) \<and>
      ?Q lines ds ups st"
  consider
      (usage) "length (argv env) < 2"
    | (nodir) "\<not> length (argv env) < 2" "files w od \<noteq> None"
    | (nompl) "\<not> length (argv env) < 2" "files w od = None" "\<not> matplotlib_importable env"
    | (noload) e where "\<not> length (argv env) < 2" "files w od = None" "matplotlib_importable env"
        "open_and_load env (argv env ! 1) w = Inl e"
    | (empty) rep where "\<not> length (argv env) < 2" "files w od = None" "matplotlib_importable env"
        "open_and_load env (argv env ! 1) w = Inr rep" "entries rep = []"
    | (render) rep where "\<not> length (argv env) < 2" "files w od = None" "matplotlib_importable env"
        "open_and_load env (argv env ! 1) w = Inr rep" "entries rep \<noteq> []"
    by (cases "open_and_load env (argv env ! 1) w") blast+
  then show ?thesis
  proof cases
    case usage
    have "?Q [''Usage: python3 hack/visualize-benchmarks.py <comparison.json>'',
         '''',
         ''Generate the JSON first:'',
         ''  go run hack/benchanalyze/main.go -old results/go-1.25.5.txt -new results/go-1.26.txt -output results/'']
         {} Map.empty (Exit 1)"
      by (simp add: main_usage [OF usage] print_usage_eq)
    then have "?P [''Usage: python3 hack/visualize-benchmarks.py <comparison.json>'',
         '''',
         ''Generate the JSON first:'',
         ''  go run hack/benchanalyze/main.go -old results/go-1.25.5.txt -new results/go-1.26.txt -output results/''] {} Map.empty (Exit 1)"
      by simp
    then show ?thesis
      by (intro exI)
  next
    case nodir
    have "?Q [] {} Map.empty (Uncaught FileExistsError)"
    proof (intro allI impI)
      fix w' :: "'b world" assume "files w' (argv env ! 1) = files w (argv env ! 1) \<and>
                 (files w' od = None \<longleftrightarrow> files w od = None)"
      then have "files w' (path_join (dirname (argv env ! 1)) ''charts'') \<noteq> None"
        using nodir(2) unfolding od by simp
      from main_makedirs_fails [OF nodir(1) this]
      show "main env w' = (w'\<lparr>console := console w' @ [], dirs := {} \<union> dirs w',
                       files := files w' ++ Map.empty\<rparr>, Uncaught FileExistsError)"
        by simp
    qed
    then have "?P [] {} Map.empty (Uncaught FileExistsError)"
      by simp
    then show ?thesis
      by (intro exI)
  next
    case nompl
    have "?Q [''matplotlib is required. Install with: pip install matplotlib''] {od} Map.empty (Exit 1)"
    proof (intro allI impI)
      fix w' :: "'b world" assume "files w' (argv env ! 1) = files w (argv env ! 1) \<and>
                 (files w' od = None \<longleftrightarrow> files w od = None)"
      then have "files w' (path_join (dirname (argv env ! 1)) ''charts'') = None"
        using nompl(2) unfolding od by simp
      from main_no_matplotlib [OF nompl(1) this nompl(3)]
      show "main env w' = (w'\<lparr>console := console w' @ [''matplotlib is required. Install with: pip install matplotlib''],
                       dirs := {od} \<union> dirs w', files := files w' ++ Map.empty\<rparr>, Exit 1)"
        unfolding od by simp
    qed
    then have "?P [''matplotlib is required. Install with: pip install matplotlib''] {od} Map.empty (Exit 1)"
      by simp
    then show ?thesis
      by (intro exI)
  next
    case noload
    have "?Q [] {od} Map.empty (Uncaught e)"
    proof (intro allI impI)
      fix w' :: "'b world" assume h: "files w' (argv env ! 1) = files w (argv env ! 1) \<and>
                 (files w' od = None \<longleftrightarrow> files w od = None)"
      then have d: "files w' (path_join (dirname (argv env ! 1)) ''charts'') = None"
        using noload(2) unfolding od by simp
      have l: "open_and_load env (argv env ! 1) w' = Inl e"
        using h noload(4) by (simp add: open_and_load_def)
      from main_load_fails [OF noload(1) d noload(3) l]
      show "main env w' = (w'\<lparr>console := console w' @ [], dirs := {od} \<union> dirs w',
                       files := files w' ++ Map.empty\<rparr>, Uncaught e)"
        unfolding od by simp
    qed
    then have "?P [] {od} Map.empty (Uncaught e)"
      by simp
    then show ?thesis
      by (intro exI)
  next
    case empty
    have "?Q [''No benchmark entries found in the report.''] {od} Map.empty (Exit 1)"
    proof (intro allI impI)
      fix w' :: "'b world" assume h: "files w' (argv env ! 1) = files w (argv env ! 1) \<and>
                 (files w' od = None \<longleftrightarrow> files w od = None)"
      then have d: "files w' (path_join (dirname (argv env ! 1)) ''charts'') = None"
        using empty(2) unfolding od by simp
      have l: "open_and_load env (argv env ! 1) w' = Inr rep"
        using h empty(4) by (simp add: open_and_load_def)
      from main_no_entries [OF empty(1) d empty(3) l empty(5)]
      show "main env w' = (w'\<lparr>console := console w' @ [''No benchmark entries found in the report.''],
                       dirs := {od} \<union> dirs w', files := files w' ++ Map.empty\<rparr>, Exit 1)"
        unfolding od by simp
    qed
    then have "?P [''No benchmark entries found in the report.''] {od} Map.empty (Exit 1)"
      by simp
    then show ?thesis
      by (intro exI)
  next
    case render
    obtain fig4 where f: "chart4 (format_float env) (old_label rep) (new_label rep) (entries rep) = Inr fig4"
      using chart4_total by blast
    let ?lines = "[''Saved: '' @ path_join od ''ns_per_op_comparison.png'',
           ''Saved: '' @ path_join od ''pct_change.png'',
           ''Saved: '' @ path_join od ''allocs_comparison.png'',
           ''Saved: '' @ path_join od ''category_summary.png'',
           CHR 0x0A # ''All charts saved to: '' @ od @ ''/'',
           CHR 0x0A # ''Summary:'',
           ''  '' @ new_label rep @ '' wins: '' @ str_int (new_wins (summary rep)),
           ''  '' @ old_label rep @ '' wins: '' @ str_int (old_wins (summary rep)),
           ''  Ties:       '' @ str_int (ties (summary rep)),
           ''  Avg change: '' @ format_float env ''+.2f'' (avg_ns_per_op_change_pct (summary rep)) @ ''%'']"
    let ?ups = "[path_join od ''ns_per_op_comparison.png'' \<mapsto>
             render env (chart1 (old_label rep) (new_label rep) (entries rep)) 150,
           path_join od ''pct_change.png'' \<mapsto>
             render env (chart2 (format_float env) (old_label rep) (new_label rep) (entries rep)) 150,
           path_join od ''allocs_comparison.png'' \<mapsto>
             render env (chart3 (old_label rep) (new_label rep) (entries rep)) 150,
           path_join od ''category_summary.png'' \<mapsto> render env fig4 150]"
    have "?Q ?lines {od} ?ups (Exit 0)"
    proof (intro allI impI)
      fix w' :: "'b world" assume h: "files w' (argv env ! 1) = files w (argv env ! 1) \<and>
                 (files w' od = None \<longleftrightarrow> files w od = None)"
      then have d: "files w' od = None"
        using render(2) by simp
      have l: "open_and_load env (argv env ! 1) w' = Inr rep"
        using h render(4) by (simp add: open_and_load_def)
      from main_renders_eq [OF render(1) od d render(3) l render(5) f]
      show "main env w' = (w'\<lparr>console := console w' @ ?lines, dirs := {od} \<union> dirs w',
                       files := files w' ++ ?ups\<rparr>, Exit 0)"
        by simp
    qed
    moreover have "dom ?ups = ?names"
      by auto
    ultimately have "?P ?lines {od} ?ups (Exit 0)"
      by simp
    then show ?thesis
      by (intro exI)
  qed
qed

text \<open>
  C8: what a run prints, how it exits and what it writes is a function of the input
  document (and of whether the output directory can be made): two runs that read the
  same document end alike, a run that draws the charts writes the four fixed file names
  and nothing else, with the same content in both runs, and running again on the world
  the first run left gives that same world back, with the same lines printed once more.
\<close>

theorem rerun_same_output:
  fixes w w' :: "'b world"
  assumes "od = path_join (dirname (argv env ! 1)) ''charts''"
    and "files w' (argv env ! 1) = files w (argv env ! 1)"
    and "files w' od = None \<longleftrightarrow> files w od = None"
  shows "snd (main env w') = snd (main env w) \<and>
         drop (length (console w')) (console (fst (main env w')))
           = drop (length (console w)) (console (fst (main env w))) \<and>
         (\<forall>f \<in> set [''ns_per_op_comparison.png'', ''pct_change.png'',
                     ''allocs_comparison.png'', ''category_summary.png''].
            snd (main env w) = Exit 0 \<longrightarrow>
              files (fst (main env w')) (path_join od f) = files (fst (main env w)) (path_join od f) \<and>
              files (fst (main env w)) (path_join od f) \<noteq> None) \<and>
         (\<forall>q. q \<notin> path_join od ` set [''ns_per_op_comparison.png'', ''pct_change.png'',
                                        ''allocs_comparison.png'', ''category_summary.png''] \<longrightarrow>
            files (fst (main env w)) q = files w q) \<and>
         main env (fst (main env w)) =
           (fst (main env w)\<lparr>console := console (fst (main env w))
               @ drop (length (console w)) (console (fst (main env w)))\<rparr>,
            snd (main env w))"
proof -
  let ?names = "path_join od ` set [''ns_per_op_comparison.png'', ''pct_change.png'',
                                    ''allocs_comparison.png'', ''category_summary.png'']"
  let ?P = "\<lambda>lines ds ups st. dom ups \<subseteq> ?names \<and> (st = Exit 0 \<longrightarrow> dom ups = ?names) \<and>
      (\<forall>v. files v (argv env ! 1) = files w (argv env ! 1) \<and>
                 (files v od = None \<longleftrightarrow> files w od = None) \<longrightarrow>
                 main env v =
                   (v\<lparr>console := console v @ lines, dirs := ds \<union> dirs v,
                       files := files v ++ ups\<rparr>, st))"
  have "\<exists>lines ds ups st. ?P lines ds ups st"
    by (rule main_effect [OF assms(1)])
  then obtain lines where "\<exists>ds ups st. ?P lines ds ups st" ..
  then obtain ds where "\<exists>ups st. ?P lines ds ups st" ..
  then obtain ups where "\<exists>st. ?P lines ds ups st" ..
  then obtain st where p: "?P lines ds ups st" ..
  note sub = p [THEN conjunct1]
  note ok = p [THEN conjunct2, THEN conjunct1]
  note all = p [THEN conjunct2, THEN conjunct2]
  have eff: "main env v = (v\<lparr>console := console v @ lines, dirs := ds \<union> dirs v,
                            files := files v ++ ups\<rparr>, st)"
    if "files v (argv env ! 1) = files w (argv env ! 1)"
       "files v od = None \<longleftrightarrow> files w od = None" for v :: "'b world"
    by (rule all [THEN spec, THEN mp, OF conjI [OF that]])
  have mw: "main env w = (w\<lparr>console := console w @ lines, dirs := ds \<union> dirs w,
                            files := files w ++ ups\<rparr>, st)"
    by (rule eff [OF refl refl])
  have mw': "main env w' = (w'\<lparr>console := console w' @ lines, dirs := ds \<union> dirs w',
                            files := files w' ++ ups\<rparr>, st)"
    by (rule eff [OF assms(2) assms(3)])
  have 1: "snd (main env w') = snd (main env w)"
    by (simp add: mw mw')
  have 2: "drop (length (console w')) (console (fst (main env w')))
           = drop (length (console w)) (console (fst (main env w)))"
    by (simp add: mw mw')
  have 3: "\<forall>f \<in> set [''ns_per_op_comparison.png'', ''pct_change.png'',
                     ''allocs_comparison.png'', ''category_summary.png''].
            snd (main env w) = Exit 0 \<longrightarrow>
              files (fst (main env w')) (path_join od f) = files (fst (main env w)) (path_join od f) \<and>
              files (fst (main env w)) (path_join od f) \<noteq> None"
  proof (intro ballI impI)
    fix f assume f: "f \<in> set [''ns_per_op_comparison.png'', ''pct_change.png'',
                     ''allocs_comparison.png'', ''category_summary.png'']"
      and "snd (main env w) = Exit 0"
    then have "st = Exit 0" by (simp add: mw)
    with ok have "dom ups = ?names" by simp
    with f have "path_join od f \<in> dom ups" by blast
    then show "files (fst (main env w')) (path_join od f) = files (fst (main env w)) (path_join od f) \<and>
              files (fst (main env w)) (path_join od f) \<noteq> None"
      by (auto simp: mw mw' map_add_dom_app_simps)
  qed
  have out: "(files w ++ ups) q = files w q" if "q \<notin> ?names" for q
    using that sub by (intro map_add_dom_app_simps) blast
  have 4: "\<forall>q. q \<notin> ?names \<longrightarrow> files (fst (main env w)) q = files w q"
    using out by (simp add: mw)
  have jp: "argv env ! 1 \<notin> ?names"
  proof
    assume "argv env ! 1 \<in> ?names"
    then obtain f where f: "argv env ! 1 = path_join od f"
      "f \<in> set [''ns_per_op_comparison.png'', ''pct_change.png'',
                  ''allocs_comparison.png'', ''category_summary.png'']"
      by (rule imageE)
    note n = chart_file_neq_input [OF f(2), of "argv env ! 1", folded assms(1)]
    from n f(1) [symmetric] show False by (rule notE)
  qed
  have dp: "od \<notin> ?names"
  proof
    assume "od \<in> ?names"
    then obtain f where f: "od = path_join od f"
      "f \<in> set [''ns_per_op_comparison.png'', ''pct_change.png'',
                  ''allocs_comparison.png'', ''category_summary.png'']"
      by (rule imageE)
    note n = chart_file_neq_dir [OF f(2), of od]
    from n f(1) [symmetric] show False by (rule notE)
  qed
  let ?w1 = "w\<lparr>console := console w @ lines, dirs := ds \<union> dirs w, files := files w ++ ups\<rparr>"
  have a1: "files ?w1 (argv env ! 1) = files w (argv env ! 1)"
    using out [OF jp] by simp
  have a2: "files ?w1 od = None \<longleftrightarrow> files w od = None"
    using out [OF dp] by simp
  have "main env ?w1 = (?w1\<lparr>console := console ?w1 @ lines, dirs := ds \<union> dirs ?w1,
                            files := files ?w1 ++ ups\<rparr>, st)"
    by (rule eff [OF a1 a2])
  moreover have "(files w ++ ups) ++ ups = files w ++ ups"
    by (rule ext) (simp add: map_add_def split: option.splits)
  moreover have "ds \<union> (ds \<union> dirs w) = ds \<union> dirs w"
    by blast
  ultimately have 5: "main env (fst (main env w)) =
           (fst (main env w)\<lparr>console := console (fst (main env w))
               @ drop (length (console w)) (console (fst (main env w)))\<rparr>,
            snd (main env w))"
    by (simp add: mw)
  from 1 2 3 4 5 show ?thesis by (intro conjI)
qed

theorem rerun_same_output_witness:
  "snd (main (sample_env True [sample_entry ''BenchmarkB'' ''db'' 3, sample_entry ''BenchmarkA'' ''web'' (- 1)])
        (sample_world\<lparr>files := (files sample_world)(''results/charts/pct_change.png'' \<mapsto> 7)\<rparr>))
     = snd (main (sample_env True [sample_entry ''BenchmarkB'' ''db'' 3, sample_entry ''BenchmarkA'' ''web'' (- 1)])
        sample_world) \<and>
   snd (main (sample_env True [sample_entry ''BenchmarkB'' ''db'' 3, sample_entry ''BenchmarkA'' ''web'' (- 1)])
        sample_world) = Exit 0 \<and>
   files (fst (main (sample_env True [sample_entry ''BenchmarkB'' ''db'' 3, sample_entry ''BenchmarkA'' ''web'' (- 1)])
        (sample_world\<lparr>files := (files sample_world)(''results/charts/pct_change.png'' \<mapsto> 7)\<rparr>)))
      (path_join ''results/charts'' ''pct_change.png'')
     = files (fst (main (sample_env True [sample_entry ''BenchmarkB'' ''db'' 3, sample_entry ''BenchmarkA'' ''web'' (- 1)])
        sample_world)) (path_join ''results/charts'' ''pct_change.png'') \<and>
   main (sample_env True [sample_entry ''BenchmarkB'' ''db'' 3, sample_entry ''BenchmarkA'' ''web'' (- 1)])
     (fst (main (sample_env True [sample_entry ''BenchmarkB'' ''db'' 3, sample_entry ''BenchmarkA'' ''web'' (- 1)])
        sample_world))
     = (fst (main (sample_env True [sample_entry ''BenchmarkB'' ''db'' 3, sample_entry ''BenchmarkA'' ''web'' (- 1)])
          sample_world)
        \<lparr>console := console (fst (main (sample_env True
              [sample_entry ''BenchmarkB'' ''db'' 3, sample_entry ''BenchmarkA'' ''web'' (- 1)]) sample_world))
           @ drop (length (console sample_world)) (console (fst (main (sample_env True
              [sample_entry ''BenchmarkB'' ''db'' 3, sample_entry ''BenchmarkA'' ''web'' (- 1)]) sample_world)))\<rparr>,
        snd (main (sample_env True [sample_entry ''BenchmarkB'' ''db'' 3, sample_entry ''BenchmarkA'' ''web'' (- 1)])
          sample_world))"
proof -
  let ?es = "[sample_entry ''BenchmarkB'' ''db'' 3, sample_entry ''BenchmarkA'' ''web'' (- 1)]"
  let ?w' = "sample_world\<lparr>files := (files sample_world)(''results/charts/pct_change.png'' \<mapsto> 7)\<rparr>"
  have a: "\<not> length (argv (sample_env True ?es)) < 2"
    by (simp add: sample_env_def)
  have p: "path_join (dirname ''results/comparison.json'') ''charts'' = ''results/charts''"
    by code_simp
  have od: "''results/charts'' = path_join (dirname (argv (sample_env True ?es) ! 1)) ''charts''"
    by (simp add: sample_env_def p)
  have doc: "files ?w' (argv (sample_env True ?es) ! 1) = files sample_world (argv (sample_env True ?es) ! 1)"
    by (simp add: sample_env_def)
  have dir: "files ?w' ''results/charts'' = None \<longleftrightarrow> files sample_world ''results/charts'' = None"
    by simp
  have b: "files sample_world ''results/charts'' = None"
    by (simp add: sample_world_def)
  have c: "matplotlib_importable (sample_env True ?es)"
    by (simp add: sample_env_def)
  have d: "open_and_load (sample_env True ?es) (argv (sample_env True ?es) ! 1) sample_world
      = Inr (sample_report ?es)"
    by (simp add: open_and_load_def sample_env_def sample_world_def)
  have e: "entries (sample_report ?es) \<noteq> []"
    by (simp add: sample_report_def)
  obtain fig4 where f: "chart4 (format_float (sample_env True ?es)) (old_label (sample_report ?es))
      (new_label (sample_report ?es)) (entries (sample_report ?es)) = Inr fig4"
    using chart4_total by blast
  have ok: "snd (main (sample_env True ?es) sample_world) = Exit 0"
    by (simp only: main_renders_eq [OF a od b c d e f] snd_conv)
  note t = rerun_same_output [OF od doc dir]
  have m: "''pct_change.png'' \<in> set [''ns_per_op_comparison.png'', ''pct_change.png'',
                     ''allocs_comparison.png'', ''category_summary.png'']"
    by simp
  note t1 = t [THEN conjunct1]
  note t3 = t [THEN conjunct2, THEN conjunct2, THEN conjunct1, THEN bspec, OF m, THEN mp, OF ok, THEN conjunct1]
  note t5 = t [THEN conjunct2, THEN conjunct2, THEN conjunct2, THEN conjunct2]
  from t1 ok t3 t5 show ?thesis by (intro conjI)
qed

end
